theory Spec2Isabelle
  imports Complex_Main "HOL-Library.Sublist" "HOL-Library.Multiset"
begin

section \<open>Python strings\<close>

text \<open>
  A Python \<open>str\<close> is modelled as a \<open>string\<close>, one \<open>char\<close> per character. The model covers
  ASCII text: case conversion, white space and the regular expression classes \<open>\w\<close> and
  \<open>\b\<close> are those of the ASCII characters, and a character above 127 is left alone by
  \<open>lower\<close>, is no white space and is no word character. The literals of the source that
  hold characters outside ASCII are written as the bytes of their UTF-8 encoding.
\<close>

definition is_upper :: "char \<Rightarrow> bool" where
  "is_upper c = (0x41 \<le> (of_char c :: nat) \<and> (of_char c :: nat) \<le> 0x5A)"

definition is_lower :: "char \<Rightarrow> bool" where
  "is_lower c = (0x61 \<le> (of_char c :: nat) \<and> (of_char c :: nat) \<le> 0x7A)"

definition is_digit :: "char \<Rightarrow> bool" where
  "is_digit c = (0x30 \<le> (of_char c :: nat) \<and> (of_char c :: nat) \<le> 0x39)"

text \<open>The class \<open>[A-Za-z]\<close>.\<close>

definition is_letter :: "char \<Rightarrow> bool" where
  "is_letter c = (is_upper c \<or> is_lower c)"

text \<open>\<open>str.isspace\<close> on ASCII: tab, line feed, vertical tab, form feed, carriage return,
  the four separators 0x1C to 0x1F, and the space.\<close>

definition is_space :: "char \<Rightarrow> bool" where
  "is_space c = ((9 \<le> (of_char c :: nat) \<and> (of_char c :: nat) \<le> 13)
     \<or> (0x1C \<le> (of_char c :: nat) \<and> (of_char c :: nat) \<le> 0x20))"

definition lower_char :: "char \<Rightarrow> char" where
  "lower_char c = (if is_upper c then char_of ((of_char c :: nat) + 32) else c)"

definition upper_char :: "char \<Rightarrow> char" where
  "upper_char c = (if is_lower c then char_of ((of_char c :: nat) - 32) else c)"

text \<open>\<open>s.lower()\<close>\<close>

definition lower :: "string \<Rightarrow> string" where
  "lower s = map lower_char s"

text \<open>\<open>sub in s\<close>: \<open>sub\<close> occurs in \<open>s\<close> as a contiguous run of characters.\<close>

definition py_in :: "string \<Rightarrow> string \<Rightarrow> bool" where
  "py_in sub s = sublist sub s"

text \<open>\<open>any(keyword in s for keyword in keywords)\<close>\<close>

definition any_in :: "string list \<Rightarrow> string \<Rightarrow> bool" where
  "any_in keywords s = list_ex (\<lambda>keyword. py_in keyword s) keywords"

text \<open>\<open>s.strip()\<close>: white space removed at both ends.\<close>

definition strip :: "string \<Rightarrow> string" where
  "strip s = rev (dropWhile is_space (rev (dropWhile is_space s)))"

text \<open>\<open>sep.join(parts)\<close>\<close>

fun join :: "string \<Rightarrow> string list \<Rightarrow> string" where
  "join sep [] = []"
| "join sep [p] = p"
| "join sep (p # q # ps) = p @ sep @ join sep (q # ps)"


section \<open>The advisor's router (advisor/advisor\_agent.py)\<close>

definition ANALYST_ADDRESS :: string where
  "ANALYST_ADDRESS = ''agent1q0ejvvp7x302ulx05389ncdfellmag6up4d2raa9v7dfrjarh4v52237sq7''"

definition NEWS_ADDRESS :: string where
  "NEWS_ADDRESS = ''agent1xyz...''"

definition CRYPTO_ADDRESS :: string where
  "CRYPTO_ADDRESS = ''agent1q0h70caed8ax769shpemapzkyk65uscw4xwk6dc4t3emvp5jdcvqs9xs32y''"

definition SOLANA_ADDRESS :: string where
  "SOLANA_ADDRESS = ''agent1q0h70caed8ax769shpemapzkyk65uscw4xwk6dc4t3emvp5jdcvqs9xs32y''"

definition HEALTH_ADDRESS :: string where
  "HEALTH_ADDRESS = ''agent1qv3dag4483k5dv4wkcncy65xpyrq4hgwk6nvuf0xzrhfz33cxaqj6xpg9c7''"

text \<open>The reply of the last branch; its first character is U+2753.\<close>

definition SORRY_MESSAGE :: string where
  "SORRY_MESSAGE = [CHR 0xE2, CHR 0x9D, CHR 0x93] @ '' Sorry, I couldn't understand your query.''"

text \<open>
  \<open>route_message\<close> sends messages and returns nothing. The model returns the messages it
  sends, in order, each as the pair of the destination and the content; \<open>sender\<close> is
  \<open>msg.sender\<close> and \<open>msg_content\<close> is \<open>msg.content\<close>.
\<close>

definition route_message :: "string \<Rightarrow> string \<Rightarrow> (string \<times> string) list" where
  "route_message sender msg_content =
     (let content = lower msg_content in
      if py_in ''stock'' content \<or> py_in ''share'' content \<or> py_in ''market'' content then
        [(ANALYST_ADDRESS, msg_content), (NEWS_ADDRESS, msg_content)]
      else if py_in ''crypto'' content \<or> py_in ''bitcoin'' content \<or> py_in ''solana'' content then
        [(CRYPTO_ADDRESS, msg_content), (SOLANA_ADDRESS, msg_content)]
      else if py_in ''health'' content \<or> py_in ''symptom'' content \<or> py_in ''insurance'' content then
        [(HEALTH_ADDRESS, msg_content)]
      else
        [(sender, SORRY_MESSAGE)])"


section \<open>The serious-condition checks (health/insurance\_agent.py, health/main.py)\<close>

definition serious_keywords :: "string list" where
  "serious_keywords =
     [''chest pain'', ''emergency'', ''critical'', ''shortness of breath'',
      ''life-threatening'', ''serious'', ''this condition may be serious'']"

definition CLI_AGENT_ADDRESS :: string where
  "CLI_AGENT_ADDRESS = ''agent1qv3dag4483k5dv4wkcncy65xpyrq4hgwk6nvuf0xzrhfz33cxaqj6xpg9c7''"

definition insurance_prompt :: string where
  "insurance_prompt = ''Do you have health insurance? If not, please enter your monthly income.''"

text \<open>
  \<open>receive_analysis\<close> of the insurance agent, as the list of the \<open>SymptomResponse\<close>
  messages it sends (destination and \<open>response\<close> field); \<open>response\<close> is \<open>msg.response\<close>.
\<close>

definition receive_analysis :: "string \<Rightarrow> (string \<times> string) list" where
  "receive_analysis response =
     (if any_in serious_keywords (lower response) then [(CLI_AGENT_ADDRESS, insurance_prompt)]
      else [])"

text \<open>
  The check of the command-line loop in \<open>startup\<close> of health/main.py, on a response taken
  from the queue: whether the two lines of the insurance prompt are printed.
\<close>

definition cli_serious_check :: "string \<Rightarrow> bool" where
  "cli_serious_check response =
     any_in [''serious'', ''emergency'', ''critical'', ''life-threatening'', ''chest pain'']
       (lower response)"


section \<open>Sentiment categories (crypto agent.py, health/insurance\_info.py)\<close>

text \<open>
  Both \<open>analyze_sentiment\<close> and \<open>analyze_insurance_sentiment\<close> bucket the average score
  by the same chain of comparisons. The score is a Python float; the model compares real
  numbers.
\<close>

definition categorize :: "real \<Rightarrow> string" where
  "categorize avg_score =
     (if avg_score \<ge> 0.15 then ''very positive''
      else if avg_score \<ge> 0.05 then ''positive''
      else if avg_score \<le> - 0.15 then ''very negative''
      else if avg_score \<le> - 0.05 then ''negative''
      else ''neutral'')"


section \<open>Token extraction (crypto agent.py)\<close>

text \<open>\<open>TOKEN_ID_MAP\<close>, in the order of the dictionary literal, which is the order in which
  Python iterates over it.\<close>

definition TOKEN_ID_MAP :: "(string \<times> string) list" where
  "TOKEN_ID_MAP =
     [(''btc'', ''bitcoin''), (''eth'', ''ethereum''), (''sol'', ''solana''),
      (''link'', ''chainlink''), (''dot'', ''polkadot''), (''ada'', ''cardano''),
      (''avax'', ''avalanche-2''), (''matic'', ''matic-network''), (''doge'', ''dogecoin''),
      (''shib'', ''shiba-inu''), (''xrp'', ''ripple''), (''bnb'', ''binancecoin''),
      (''uni'', ''uniswap''), (''atom'', ''cosmos'')]"

text \<open>The first character of a string, if any.\<close>

definition head_opt :: "string \<Rightarrow> char option" where
  "head_opt s = (case s of [] \<Rightarrow> None | c # _ \<Rightarrow> Some c)"

text \<open>The class \<open>\w\<close>: letters, digits and the underscore.\<close>

definition is_word_char :: "char \<Rightarrow> bool" where
  "is_word_char c = (is_letter c \<or> is_digit c \<or> c = CHR ''_'')"

definition is_word :: "char option \<Rightarrow> bool" where
  "is_word x = (case x of None \<Rightarrow> False | Some c \<Rightarrow> is_word_char c)"

text \<open>
  \<open>\b\<close> at a position, given the character before it (\<open>None\<close> at the start of the string) and
  the character after it (\<open>None\<close> at the end): exactly one of the two is a word character.
\<close>

definition word_boundary :: "char option \<Rightarrow> char option \<Rightarrow> bool" where
  "word_boundary before after = (is_word before \<noteq> is_word after)"

text \<open>
  The pattern \<open>\btoken\b\<close> matches at the start of \<open>s\<close>, where \<open>prev\<close> is the character before
  \<open>s\<close> in the whole string. The tokens are lower-case letters, which \<open>re.escape\<close> leaves as
  they are.
\<close>

definition match_word_at :: "string \<Rightarrow> char option \<Rightarrow> string \<Rightarrow> bool" where
  "match_word_at token prev s =
     (prefix token s \<and> word_boundary prev (head_opt s)
      \<and> word_boundary (if token = [] then prev else Some (last token))
            (head_opt (drop (length token) s)))"

text \<open>\<open>re.search(r'\btoken\b', query)\<close> finds a match: the pattern matches at some position
  of the rest \<open>s\<close> of the string.\<close>

fun re_search_word :: "string \<Rightarrow> char option \<Rightarrow> string \<Rightarrow> bool" where
  "re_search_word token prev [] = match_word_at token prev []"
| "re_search_word token prev (c # cs) =
     (match_word_at token prev (c # cs) \<or> re_search_word token (Some c) cs)"

text \<open>
  The pattern \<open>\b[A-Za-z]{3,5}\b\<close> at the start of \<open>s\<close>: the length of the match, if there is
  one. The repetition is greedy: it takes up to five letters and gives them back one by one,
  down to three, until \<open>\b\<close> holds after them.
\<close>

definition match_symbol_at :: "char option \<Rightarrow> string \<Rightarrow> nat option" where
  "match_symbol_at prev s =
     (if word_boundary prev (head_opt s) then
        (let n = length (takeWhile is_letter (take 5 s)) in
         find (\<lambda>k. word_boundary (Some (s ! (k - 1))) (head_opt (drop k s))) (rev [3..<Suc n]))
      else None)"

text \<open>\<open>re.findall(r'\b[A-Za-z]{3,5}\b', query)\<close>: the matches from left to right, the search
  going on after the end of each match, and one character further where there is none.\<close>

function findall_symbols :: "char option \<Rightarrow> string \<Rightarrow> string list" where
  "findall_symbols prev [] = []"
| "findall_symbols prev (c # cs) =
     (case match_symbol_at prev (c # cs) of
        Some k \<Rightarrow> take k (c # cs) # findall_symbols (Some ((c # cs) ! (k - 1))) (drop k (c # cs))
      | None \<Rightarrow> findall_symbols (Some c) cs)"
  by pat_completeness auto
termination
proof (relation "measure (\<lambda>(prev, s). length s)")
  fix prev :: "char option" and c :: char and cs :: string and k :: nat
  assume m: "match_symbol_at prev (c # cs) = Some k"
  define ks where "ks = rev [3..<Suc (length (takeWhile is_letter (take 5 (c # cs))))]"
  have "find (\<lambda>k. word_boundary (Some ((c # cs) ! (k - 1))) (head_opt (drop k (c # cs)))) ks
          = Some k"
    using m unfolding ks_def match_symbol_at_def Let_def by (simp split: if_splits del: upt_Suc)
  then obtain i where "i < length ks" and "k = ks ! i"
    unfolding find_Some_iff by blast
  then have "k \<in> set ks"
    by simp
  then have "0 < k"
    unfolding ks_def by (simp del: upt_Suc)
  then show "((Some ((c # cs) ! (k - 1)), drop k (c # cs)), prev, c # cs)
      \<in> measure (\<lambda>(prev, s). length s)"
    by simp
qed simp_all

text \<open>\<open>extract_token_from_query\<close>: the three strategies in turn.\<close>

definition extract_token_from_query :: "string \<Rightarrow> string option" where
  "extract_token_from_query q =
     (let query = lower q in
      case find (\<lambda>token. re_search_word token None query) (map fst TOKEN_ID_MAP) of
        Some token \<Rightarrow> Some token
      | None \<Rightarrow>
         (case find (\<lambda>(symbol, name). py_in name (lower query)) TOKEN_ID_MAP of
            Some (symbol, name) \<Rightarrow> Some symbol
          | None \<Rightarrow>
             (case find (\<lambda>m. map_of TOKEN_ID_MAP (lower m) \<noteq> None)
                     (findall_symbols None query) of
                Some m \<Rightarrow> Some (lower m)
              | None \<Rightarrow> None)))"

text \<open>The function made of the first two strategies only, to compare with.\<close>

definition extract_token_two_strategies :: "string \<Rightarrow> string option" where
  "extract_token_two_strategies q =
     (let query = lower q in
      case find (\<lambda>token. re_search_word token None query) (map fst TOKEN_ID_MAP) of
        Some token \<Rightarrow> Some token
      | None \<Rightarrow>
         (case find (\<lambda>(symbol, name). py_in name (lower query)) TOKEN_ID_MAP of
            Some (symbol, name) \<Rightarrow> Some symbol
          | None \<Rightarrow> None))"


section \<open>Floating-point numbers\<close>

text \<open>Rounding to the nearest integer, a tie going to the even one.\<close>

definition round_half_even :: "real \<Rightarrow> int" where
  "round_half_even x =
     (let f = \<lfloor>x\<rfloor>; r = x - of_int f
      in if r < 1 / 2 then f else if r > 1 / 2 then f + 1 else if even f then f else f + 1)"

text \<open>
  A Python \<open>float\<close> is a binary64 number of IEEE 754, modelled by the real number that is
  its value. \<open>binade x\<close> is the exponent \<open>e\<close> with \<open>2 ^ e \<le> \<bar>x\<bar> < 2 ^ (e + 1)\<close> of a number
  other than 0, found by halving or doubling.
\<close>

function binade_up :: "real \<Rightarrow> int" where
  "binade_up x = (if x < 2 then 0 else binade_up (x / 2) + 1)"
  by pat_completeness auto
termination
proof (relation "measure (\<lambda>x. nat \<lfloor>x\<rfloor>)")
  show "wf (measure (\<lambda>x::real. nat \<lfloor>x\<rfloor>))"
    by simp
next
  fix x :: real
  assume "\<not> x < 2"
  then have "x / 2 \<le> x - 1"
    by simp
  then have "\<lfloor>x / 2\<rfloor> \<le> \<lfloor>x - 1\<rfloor>"
    by (rule floor_mono)
  moreover have "\<lfloor>x - 1\<rfloor> = \<lfloor>x\<rfloor> - 1"
    by simp
  moreover have "1 \<le> \<lfloor>x\<rfloor>"
    using \<open>\<not> x < 2\<close> by (simp add: le_floor_iff)
  ultimately show "(x / 2, x) \<in> measure (\<lambda>x. nat \<lfloor>x\<rfloor>)"
    by simp
qed

function binade_down :: "real \<Rightarrow> int" where
  "binade_down x = (if x \<le> 0 \<or> 1 \<le> x then 0 else binade_down (2 * x) - 1)"
  by pat_completeness auto
termination
proof (relation "measure (\<lambda>x. nat \<lceil>1 / x\<rceil>)")
  show "wf (measure (\<lambda>x::real. nat \<lceil>1 / x\<rceil>))"
    by simp
next
  fix x :: real
  assume "\<not> (x \<le> 0 \<or> 1 \<le> x)"
  then have x: "0 < x" "x < 1"
    by simp_all
  then have "1 < 1 / x"
    by simp
  then have c: "2 \<le> \<lceil>1 / x\<rceil>"
    by (simp add: le_ceiling_iff)
  have "1 / (2 * x) = (1 / x) / 2"
    by simp
  also have "\<dots> \<le> of_int \<lceil>1 / x\<rceil> / 2"
    by (simp add: divide_right_mono)
  also have "\<dots> \<le> of_int (\<lceil>1 / x\<rceil> - 1)"
    using c by simp
  finally have "\<lceil>1 / (2 * x)\<rceil> \<le> \<lceil>1 / x\<rceil> - 1"
    by (simp only: ceiling_le_iff)
  then show "(2 * x, x) \<in> measure (\<lambda>x. nat \<lceil>1 / x\<rceil>)"
    using c x by simp
qed

declare binade_up.simps [simp del] binade_down.simps [simp del]

definition binade :: "real \<Rightarrow> int" where
  "binade x = (if \<bar>x\<bar> \<ge> 1 then binade_up \<bar>x\<bar> else binade_down \<bar>x\<bar>)"

definition pow2 :: "int \<Rightarrow> real" where
  "pow2 e = (if e \<ge> 0 then 2 ^ nat e else 1 / 2 ^ nat (- e))"

text \<open>
  The rounding of a real number to the nearest binary64 number, a tie going to the even
  significand: the numbers of a binade are the multiples of its unit in the last place,
  which is \<open>2 ^ (e - 52)\<close>, and \<open>2 ^ (- 1074)\<close> below the smallest normal number. The
  overflow to infinity of a result beyond the largest number is not modelled.
\<close>

definition round_to_double :: "real \<Rightarrow> real" where
  "round_to_double x =
     (if x = 0 then 0
      else (let ulp = pow2 (max (binade x) (- 1022) - 52)
            in of_int (round_half_even (x / ulp)) * ulp))"

text \<open>
  \<open>sum(scores)\<close> on a list of floats: the additions are done from the left, starting from
  0, and each one rounds its result (CPython up to version 3.11; later versions carry a
  compensation term along). \<open>float_div\<close> is the division \<open>/\<close> of two floats.
\<close>

definition float_sum :: "real list \<Rightarrow> real" where
  "float_sum scores = foldl (\<lambda>acc score. round_to_double (acc + score)) 0 scores"

definition float_div :: "real \<Rightarrow> real \<Rightarrow> real" where
  "float_div x y = round_to_double (x / y)"


section \<open>Sentiment analysis of the collected texts (crypto agent.py)\<close>

text \<open>
  An element of the list \<open>texts\<close>: a \<open>str\<close>, or an object of another type, which the
  scoring loop guards against with \<open>isinstance(text, str)\<close>.
\<close>

datatype py_text = Str string | NotStr

text \<open>
  The dictionary that \<open>analyze_sentiment\<close> returns. \<open>analysis\<close> is \<open>None\<close> where the
  dictionary has no such key, and \<open>has_error\<close> says whether it has the key \<open>'error'\<close>.
\<close>

record sentiment_result =
  sentiment_score :: real
  sentiment_category :: string
  sample_size :: nat
  sources :: "string list"
  analysis :: "string option"
  has_error :: bool

text \<open>
  The loops over the items of a news response (lines 275 to 282, 313 to 324 and 329 to 339):
  each relevant item appends its text to \<open>texts\<close> and its source name to \<open>sources\<close>, the
  latter only when the name is not in the list yet. A sample is the pair of the text and
  the source name of one item; \<open>srcs\<close> is the list \<open>sources\<close>.
\<close>

fun collect_samples ::
  "(py_text \<times> string) list \<Rightarrow> py_text list \<times> string list \<Rightarrow> py_text list \<times> string list" where
  "collect_samples [] (texts, srcs) = (texts, srcs)"
| "collect_samples ((text, source_name) # items) (texts, srcs) =
     collect_samples items
       (texts @ [text], if source_name \<notin> set srcs then srcs @ [source_name] else srcs)"

text \<open>
  The scoring loop. \<open>polarity text\<close> stands for \<open>sia.polarity_scores(text)['compound']\<close> of
  the VADER library: \<open>Some score\<close>, the value of the float it returns, or \<open>None\<close> when the
  call raises, which the loop catches and skips.
\<close>

fun score_texts :: "(string \<Rightarrow> real option) \<Rightarrow> py_text list \<Rightarrow> real list" where
  "score_texts polarity [] = []"
| "score_texts polarity (NotStr # texts) = score_texts polarity texts"
| "score_texts polarity (Str text # texts) =
     (if text \<noteq> [] \<and> length (strip text) > 0 then
        (case polarity text of
           Some score \<Rightarrow> score # score_texts polarity texts
         | None \<Rightarrow> score_texts polarity texts)
      else score_texts polarity texts)"

text \<open>The score that the scoring loop gives to one element, if any.\<close>

definition score_of :: "(string \<Rightarrow> real option) \<Rightarrow> py_text \<Rightarrow> real option" where
  "score_of polarity t =
     (case t of NotStr \<Rightarrow> None
      | Str text \<Rightarrow> if text \<noteq> [] \<and> length (strip text) > 0 then polarity text else None)"

text \<open>
  \<open>text[:100] + '...' for text in texts[:3]\<close>: the previews, or \<open>None\<close> when an element is
  not a string and the slice or the concatenation raises \<open>TypeError\<close>.
\<close>

fun previews :: "py_text list \<Rightarrow> string list option" where
  "previews [] = Some []"
| "previews (NotStr # texts) = None"
| "previews (Str text # texts) =
     (case previews texts of
        Some ps \<Rightarrow> Some ((take 100 text @ ''...'') # ps)
      | None \<Rightarrow> None)"

text \<open>
  Lines 459 to 518 of \<open>analyze_sentiment\<close>, on the collected \<open>texts\<close> and \<open>sources\<close> (here \<open>srcs\<close>). An
  exception inside the inner \<open>try\<close> leaves the initial \<open>sentiment_result\<close> and adds the key
  \<open>'error'\<close> to it. The average is computed on floats: the sum in the order of the list,
  then one division by the length, which is converted exactly.
\<close>

definition analyze_texts ::
  "(string \<Rightarrow> real option) \<Rightarrow> py_text list \<Rightarrow> string list \<Rightarrow> sentiment_result" where
  "analyze_texts polarity texts srcs =
     (if texts \<noteq> [] then
        (let sentiment_result =
               \<lparr>sentiment_score = 0, sentiment_category = ''neutral'', sample_size = 0,
                sources = [],
                analysis = Some ''No recent news or data available for analysis.'',
                has_error = False\<rparr>;
             scores = score_texts polarity texts
         in if scores \<noteq> [] then
              (let avg_score = float_div (float_sum scores) (real (length scores));
                   sentiment = categorize avg_score
               in case previews (take 3 texts) of
                    Some ps \<Rightarrow>
                      sentiment_result
                        \<lparr>sentiment_score := avg_score, sentiment_category := sentiment,
                         sample_size := length scores, sources := take 5 srcs,
                         analysis := Some (join '' '' ps)\<rparr>
                  | None \<Rightarrow> sentiment_result\<lparr>has_error := True\<rparr>)
            else sentiment_result)
      else
        \<lparr>sentiment_score = 0, sentiment_category = ''neutral'', sample_size = 0,
         sources = [''No data''], analysis = None, has_error = False\<rparr>)"

text \<open>The aggregation of a sequence of samples: collection, then analysis.\<close>

definition analyze_samples ::
  "(string \<Rightarrow> real option) \<Rightarrow> (py_text \<times> string) list \<Rightarrow> sentiment_result" where
  "analyze_samples polarity samples =
     (case collect_samples samples ([], []) of
        (texts, srcs) \<Rightarrow> analyze_texts polarity texts srcs)"


section \<open>The chat handler of the crypto agent (crypto agent.py)\<close>





section \<open>The chat handler of the insurance agent (health/insurance\_info.py)\<close>

text \<open>An entry of \<open>MAJOR_INSURANCE_COMPANIES\<close>.\<close>

record company_data =
  name :: string
  type :: string
  website :: string




text \<open>\<open>s.split()\<close>: the maximal runs of characters that are no white space; \<open>word\<close> is the
  run read so far.\<close>

fun split_from :: "string \<Rightarrow> string \<Rightarrow> string list" where
  "split_from word [] = (if word = [] then [] else [word])"
| "split_from word (c # cs) =
     (if is_space c then (if word = [] then split_from [] cs else word # split_from [] cs)
      else split_from (word @ [c]) cs)"

definition split :: "string \<Rightarrow> string list" where
  "split s = split_from [] s"

text \<open>The dictionary that \<open>extract_insurance_info_from_query\<close> returns.\<close>

record query_info =
  company :: "string option"
  insurance_type :: "string option"
  company_data :: "company_data option"
  specific_terms :: "string list"





section \<open>Number formatting (crypto agent.py)\<close>

text \<open>The decimal digits of a natural number, as \<open>str\<close> writes them.\<close>

definition digit_char :: "nat \<Rightarrow> char" where
  "digit_char k = ''0123456789'' ! k"

fun digits :: "nat \<Rightarrow> string" where
  "digits n =
     (if n < 10 then [digit_char n] else digits (n div 10) @ [digit_char (n mod 10)])"

declare digits.simps [simp del]

text \<open>
  The format \<open>.df\<close> for \<open>d > 0\<close>: the sign of a negative number, the integer part, a point
  and \<open>d\<close> decimals, of the number rounded to \<open>d\<close> decimals. A Python float is a rational
  number, which the formatting rounds exactly; the model takes a real number, and has no
  infinities and no NaN.
\<close>

definition format_fixed :: "nat \<Rightarrow> real \<Rightarrow> string" where
  "format_fixed d x =
     (let n = nat (round_half_even (\<bar>x\<bar> * 10 ^ d));
          fraction = digits (n mod 10 ^ d)
      in (if x < 0 then ''-'' else []) @ digits (n div 10 ^ d) @ ''.''
           @ replicate (d - length fraction) (CHR ''0'') @ fraction)"

text \<open>The two helpers of \<open>get_token_outlook\<close>. The divisions are those of real numbers.\<close>

definition format_currency :: "real \<Rightarrow> string" where
  "format_currency v =
     (if v \<ge> 1000000000 then ''$'' @ format_fixed 2 (v / 1000000000) @ ''B''
      else if v \<ge> 1000000 then ''$'' @ format_fixed 2 (v / 1000000) @ ''M''
      else if v \<ge> 1000 then ''$'' @ format_fixed 1 (v / 1000) @ ''K''
      else ''$'' @ format_fixed 2 v)"

definition format_percent :: "real \<Rightarrow> string" where
  "format_percent v =
     (if v > 0 then ''+'' @ format_fixed 2 v @ ''%'' else format_fixed 2 v @ ''%'')"


section \<open>The response of the insurance agent (health/insurance\_info.py)\<close>

text \<open>\<open>s.title()\<close>: a letter is put in upper case when the character before it is no
  letter, and in lower case otherwise.\<close>

fun title_from :: "bool \<Rightarrow> string \<Rightarrow> string" where
  "title_from after_letter [] = []"
| "title_from after_letter (c # cs) =
     (if after_letter then lower_char c else upper_char c) # title_from (is_letter c) cs"

definition title :: "string \<Rightarrow> string" where
  "title s = title_from False s"

text \<open>The format \<open>,\<close> of an integer: its digits in groups of three.\<close>

fun group_reversed :: "string \<Rightarrow> string" where
  "group_reversed (a # b # c # d # ds) = a # b # c # CHR '','' # group_reversed (d # ds)"
| "group_reversed ds = ds"

definition format_grouped :: "int \<Rightarrow> string" where
  "format_grouped i =
     (if i < 0 then ''-'' else []) @ rev (group_reversed (rev (digits (nat \<bar>i\<bar>))))"

text \<open>
  The clock. \<open>datetime.now()\<close> reads it; the model takes the reading as an argument.
\<close>

record datetime =
  year :: nat
  month :: nat
  day :: nat
  hour :: nat
  minute :: nat
  second :: nat
  microsecond :: nat

definition month_names :: "string list" where
  "month_names =
     [''January'', ''February'', ''March'', ''April'', ''May'', ''June'', ''July'',
      ''August'', ''September'', ''October'', ''November'', ''December'']"

text \<open>A number in at least two digits, as \<open>%d\<close>, \<open>%H\<close>, \<open>%M\<close> and \<open>%S\<close>
  write it.\<close>

definition two_digits :: "nat \<Rightarrow> string" where
  "two_digits n = (if n < 10 then ''0'' else []) @ digits n"

text \<open>\<open>now.strftime('%B %d, %Y at %H:%M:%S')\<close>, for a month from 1 to 12.\<close>

definition strftime :: "datetime \<Rightarrow> string" where
  "strftime now =
     month_names ! (month now - 1) @ '' '' @ two_digits (day now) @ '', '' @ digits (year now)
       @ '' at '' @ two_digits (hour now) @ '':'' @ two_digits (minute now) @ '':''
       @ two_digits (second now)"

text \<open>The dictionary of \<open>get_insurance_market_data\<close> with a quote.\<close>

record quote =
  symbol :: string
  price :: real
  change :: real
  change_percent :: string
  volume :: int
  high :: real
  low :: real
  last_updated :: string

text \<open>\<open>market_data\<close> is \<open>None\<close>, a dictionary with the key \<open>'error'\<close>, or a
  quote.\<close>

datatype market_data = MarketError string | Quote quote

datatype py_error = ValueError

text \<open>The decorations of the response, as the source file spells them.\<close>

definition BULLET :: string where
  "BULLET =
     [CHR 0xC3, CHR 0xA2, CHR 0xE2, CHR 0x82, CHR 0xAC, CHR 0xC2, CHR 0xA2]"

definition GREEN :: string where
  "GREEN =
     [CHR 0xC3, CHR 0xB0, CHR 0xC5, CHR 0xB8, CHR 0xC5, CHR 0xB8, CHR 0xC2, CHR 0xA2]"

definition RED :: string where
  "RED =
     [CHR 0xC3, CHR 0xB0, CHR 0xC5, CHR 0xB8, CHR 0xE2, CHR 0x80, CHR 0x9D, CHR 0xC2, CHR 0xB4]"

definition THUMBS_UP :: string where
  "THUMBS_UP =
     [CHR 0xC3, CHR 0xB0, CHR 0xC5, CHR 0xB8, CHR 0xE2, CHR 0x80, CHR 0x98]"

definition THUMBS_DOWN :: string where
  "THUMBS_DOWN =
     [CHR 0xC3, CHR 0xB0, CHR 0xC5, CHR 0xB8, CHR 0xE2, CHR 0x80, CHR 0x98, CHR 0xC5, CHR 0xBD]"

definition DASH :: string where
  "DASH =
     [CHR 0xC3, CHR 0xA2, CHR 0xC5, CHR 0xBE, CHR 0xE2, CHR 0x80, CHR 0x93]"

definition STOCK_HEAD :: string where
  "STOCK_HEAD =
     [CHR 0xC3, CHR 0xB0, CHR 0xC5, CHR 0xB8, CHR 0xE2, CHR 0x80, CHR 0x9C, CHR 0xCB, CHR 0x86] @
     '' **Stock Performance** (''"

definition SENTIMENT_HEAD :: string where
  "SENTIMENT_HEAD =
     [CHR 0xC3, CHR 0xB0, CHR 0xC5, CHR 0xB8, CHR 0xC5, CHR 0xBD, CHR 0xC2, CHR 0xAF] @
     '' **Market Sentiment**''"

definition FOCUS_HEAD :: string where
  "FOCUS_HEAD =
     [CHR 0xC3, CHR 0xB0, CHR 0xC5, CHR 0xB8, CHR 0xE2, CHR 0x80, CHR 0x9D] @
     '' **Areas of Focus:** ''"

definition ANALYSIS_HEAD :: string where
  "ANALYSIS_HEAD =
     [CHR 0xC3, CHR 0xB0, CHR 0xC5, CHR 0xB8, CHR 0xE2, CHR 0x80, CHR 0x9C, CHR 0xC5, CHR 0xA0] @
     '' **Detailed Analysis**''"

definition GENERATED_HEAD :: string where
  "GENERATED_HEAD =
     [CHR 0xC3, CHR 0xB0, CHR 0xC5, CHR 0xB8, CHR 0xE2, CHR 0x80, CHR 0x9C, CHR 0xE2, CHR 0x80, CHR 0xA6] @
     '' **Analysis Generated:** ''"

definition LEARN_HEAD :: string where
  "LEARN_HEAD =
     [CHR 0xC3, CHR 0xB0, CHR 0xC5, CHR 0xB8, CHR 0xC5, CHR 0x92] @
     '' **Learn More:** Visit ''"

text \<open>
  The market section of the response. \<open>py_float\<close> stands for Python's \<open>float\<close> on a
  string: \<open>None\<close> when it raises \<open>ValueError\<close>, which \<open>format_insurance_response\<close>
  does not catch.
\<close>

definition market_section ::
  "(string \<Rightarrow> real option) \<Rightarrow> market_data option \<Rightarrow> py_error + string" where
  "market_section py_float market =
     (case market of
        Some (Quote q) \<Rightarrow>
          (case py_float (filter (\<lambda>c. c \<noteq> CHR ''%'') (change_percent q)) of
             None \<Rightarrow> Inl ValueError
           | Some c \<Rightarrow>
               (let change_emoji = (if c > 0 then GREEN else RED) in
                Inr (STOCK_HEAD @ symbol q @ '')'' @ [CHR 0x0A]
                  @ BULLET @ '' Current Price: $'' @ format_fixed 2 (price q) @ [CHR 0x0A]
                  @ BULLET @ '' Daily Change: '' @ change_emoji @ '' '' @ change_percent q
                  @ ''%'' @ [CHR 0x0A]
                  @ BULLET @ '' Volume: '' @ format_grouped (volume q) @ [CHR 0x0A]
                  @ BULLET @ '' Day Range: $'' @ format_fixed 2 (low q) @ '' - $''
                  @ format_fixed 2 (high q) @ [CHR 0x0A, CHR 0x0A])))
      | _ \<Rightarrow> Inr [])"

text \<open>The header: by the company, else by the insurance type, else the general one.\<close>

definition response_header :: "query_info \<Rightarrow> string" where
  "response_header info =
     (case company_data info of
        Some data \<Rightarrow>
          ''**'' @ name data @ '' - '' @ title (type data) @ '' Insurance Analysis**''
      | None \<Rightarrow>
          (if insurance_type info \<noteq> None \<and> insurance_type info \<noteq> Some [] then
             ''**'' @ title (the (insurance_type info)) @ '' Insurance Market Analysis**''
           else ''**Insurance Market Analysis**''))"

text \<open>
  The sentiment section, the areas of focus and the analysis. \<open>sentiment\<close> is \<open>None\<close> for
  the dictionary that holds only the key \<open>'error'\<close>, for which every \<open>get\<close> gives its
  default.
\<close>

definition response_body :: "query_info \<Rightarrow> sentiment_result option \<Rightarrow> string \<Rightarrow> string" where
  "response_body info sentiment analysis_text =
     (let score = (case sentiment of Some r \<Rightarrow> sentiment_score r | None \<Rightarrow> 0);
          category = (case sentiment of Some r \<Rightarrow> sentiment_category r | None \<Rightarrow> ''neutral'');
          size = (case sentiment of Some r \<Rightarrow> sample_size r | None \<Rightarrow> 0);
          sentiment_emoji =
            (if score > 0.1 then THUMBS_UP else if score < - 0.1 then THUMBS_DOWN else DASH)
      in SENTIMENT_HEAD @ [CHR 0x0A]
           @ BULLET @ '' Score: '' @ format_fixed 2 score @ ''/1.0'' @ [CHR 0x0A]
           @ BULLET @ '' Category: '' @ sentiment_emoji @ '' '' @ title category @ [CHR 0x0A]
           @ BULLET @ '' Sample Size: '' @ digits size @ '' sources'' @ [CHR 0x0A, CHR 0x0A]
           @ (if specific_terms info \<noteq> [] then
                FOCUS_HEAD @ join '', '' (specific_terms info) @ [CHR 0x0A, CHR 0x0A]
              else [])
           @ ANALYSIS_HEAD @ [CHR 0x0A] @ analysis_text @ [CHR 0x0A, CHR 0x0A])"

text \<open>The last line, for a query with a company.\<close>

definition learn_more :: "query_info \<Rightarrow> string" where
  "learn_more info =
     (case company_data info of
        Some data \<Rightarrow> LEARN_HEAD @ website data
      | None \<Rightarrow> [])"

text \<open>\<open>format_insurance_response\<close>, with the reading \<open>now\<close> of the clock.\<close>

definition format_insurance_response ::
  "(string \<Rightarrow> real option) \<Rightarrow> datetime \<Rightarrow> query_info \<Rightarrow> market_data option
     \<Rightarrow> sentiment_result option \<Rightarrow> string \<Rightarrow> py_error + string" where
  "format_insurance_response py_float now info market sentiment analysis_text =
     (case market_section py_float market of
        Inl e \<Rightarrow> Inl e
      | Inr market_lines \<Rightarrow>
          Inr (strip
            (response_header info @ [CHR 0x0A, CHR 0x0A] @ market_lines
               @ response_body info sentiment analysis_text
               @ ''---'' @ [CHR 0x0A]
               @ GENERATED_HEAD @ strftime now @ [CHR 0x0A]
               @ learn_more info)))"

text \<open>
  The response before its time stamp, for the market lines at hand, and the response after
  its time stamp: what \<open>strip\<close> leaves of the line break and the last line.
\<close>

definition response_before :: "query_info \<Rightarrow> string \<Rightarrow> sentiment_result option \<Rightarrow> string \<Rightarrow> string" where
  "response_before info market_lines sentiment analysis_text =
     response_header info @ [CHR 0x0A, CHR 0x0A] @ market_lines
       @ response_body info sentiment analysis_text @ ''---'' @ [CHR 0x0A] @ GENERATED_HEAD"

definition response_after :: "query_info \<Rightarrow> string" where
  "response_after info = rev (dropWhile is_space (rev ([CHR 0x0A] @ learn_more info)))"


section \<open>The response of the crypto agent (crypto agent.py)\<close>

text \<open>\<open>s.upper()\<close>, on the ASCII letters.\<close>

definition upper :: "string \<Rightarrow> string" where
  "upper s = map upper_char s"

text \<open>The format \<open>,.df\<close> for \<open>d > 0\<close>: as \<open>.df\<close>, with the digits of the integer part in
  groups of three.\<close>

definition format_fixed_grouped :: "nat \<Rightarrow> real \<Rightarrow> string" where
  "format_fixed_grouped d x =
     (let n = nat (round_half_even (\<bar>x\<bar> * 10 ^ d));
          fraction = digits (n mod 10 ^ d)
      in (if x < 0 then ''-'' else []) @ rev (group_reversed (rev (digits (n div 10 ^ d))))
           @ ''.'' @ replicate (d - length fraction) (CHR ''0'') @ fraction)"

text \<open>
  The dictionary \<open>price_data\<close> that \<open>get_crypto_price\<close> returns; the keys \<open>'symbol'\<close>,
  \<open>'name'\<close> and \<open>'last_updated'\<close> are the fields \<open>coin_symbol\<close>, \<open>coin_name\<close> and
  \<open>coin_last_updated\<close>. \<open>get_crypto_price\<close> sets every key, so the defaults of the calls
  of \<open>get\<close> are left out, but for \<open>'last_updated'\<close>, whose default is the clock:
  \<open>coin_last_updated\<close> is \<open>None\<close> for a dictionary without that key.
\<close>

record price_data =
  coin_symbol :: string
  coin_name :: string
  price_usd :: real
  market_cap :: real
  volume_24h :: real
  change_24h :: real
  price_change_7d :: real
  price_change_30d :: real
  coin_last_updated :: "int option"

text \<open>\<open>updated.strftime('%b %d, %Y, %H:%M:%S')\<close>, for a month from 1 to 12.\<close>

definition month_abbreviations :: "string list" where
  "month_abbreviations =
     [''Jan'', ''Feb'', ''Mar'', ''Apr'', ''May'', ''Jun'', ''Jul'', ''Aug'', ''Sep'', ''Oct'',
      ''Nov'', ''Dec'']"

definition strftime_b :: "datetime \<Rightarrow> string" where
  "strftime_b updated =
     month_abbreviations ! (month updated - 1) @ '' '' @ two_digits (day updated) @ '', ''
       @ digits (year updated) @ '', '' @ two_digits (hour updated) @ '':''
       @ two_digits (minute updated) @ '':'' @ two_digits (second updated)"

text \<open>The decorations of the response, in UTF-8.\<close>

definition GEM :: string where
  "GEM = [CHR 0xF0, CHR 0x9F, CHR 0x92, CHR 0x8E]"

definition BULLET_POINT :: string where
  "BULLET_POINT = [CHR 0xE2, CHR 0x80, CHR 0xA2]"

definition GREEN_CIRCLE :: string where
  "GREEN_CIRCLE = [CHR 0xF0, CHR 0x9F, CHR 0x9F, CHR 0xA2]"

definition RED_CIRCLE :: string where
  "RED_CIRCLE = [CHR 0xF0, CHR 0x9F, CHR 0x94, CHR 0xB4]"

definition WHITE_CIRCLE :: string where
  "WHITE_CIRCLE = [CHR 0xE2, CHR 0x9A, CHR 0xAA]"

definition TARGET :: string where
  "TARGET = [CHR 0xF0, CHR 0x9F, CHR 0x8E, CHR 0xAF]"

definition FIRE :: string where
  "FIRE = [CHR 0xF0, CHR 0x9F, CHR 0x94, CHR 0xA5]"

definition MAGNIFIER :: string where
  "MAGNIFIER = [CHR 0xF0, CHR 0x9F, CHR 0x94, CHR 0x8D]"

definition BAR_CHART :: string where
  "BAR_CHART = [CHR 0xF0, CHR 0x9F, CHR 0x93, CHR 0x8A]"

text \<open>
  The parts of the response of \<open>get_token_outlook\<close> (lines 642 to 764). The comparisons
  and the products are those of real numbers. \<open>sentiment_emoji\<close>, the three local
  functions for arrows and the text \<open>analysis\<close> are computed and not written out.
\<close>

definition change_emoji :: "price_data \<Rightarrow> string" where
  "change_emoji price_data =
     (if change_24h price_data > 0 then GREEN_CIRCLE
      else if change_24h price_data < 0 then RED_CIRCLE else WHITE_CIRCLE)"

definition technical_signals :: "price_data \<Rightarrow> string" where
  "technical_signals price_data =
     (if change_24h price_data < 0 \<and> price_change_7d price_data > 0
         \<and> price_change_30d price_data > 0 then
        ''Mixed short-term signals with a slight 24h dip but positive 7d and 30d trends''
      else if change_24h price_data > 0 \<and> price_change_7d price_data > 0
         \<and> price_change_30d price_data > 0 then
        ''Consistent bullish pattern across all timeframes''
      else if change_24h price_data < 0 \<and> price_change_7d price_data < 0
         \<and> price_change_30d price_data < 0 then
        ''Consistent bearish pattern across all timeframes''
      else ''Short-term volatility with mixed signals across different timeframes'')"

definition outlook_overview :: "price_data \<Rightarrow> string" where
  "outlook_overview price_data =
     [CHR 0x0A] @ ''**'' @ coin_name price_data @ '' ('' @ upper (coin_symbol price_data)
     @ '') Market Overview**'' @ [CHR 0x0A, CHR 0x0A] @ GEM @ '' **Price & Market Data**''
     @ [CHR 0x0A] @ BULLET_POINT @ '' Current Price: $''
     @ format_fixed_grouped 2 (price_usd price_data) @ [CHR 0x0A] @ BULLET_POINT
     @ '' Market Cap: $'' @ format_currency (market_cap price_data) @ [CHR 0x0A] @ BULLET_POINT
     @ '' 24h Volume: $'' @ format_currency (volume_24h price_data) @ [CHR 0x0A] @ BULLET_POINT
     @ '' 24h Change: '' @ change_emoji price_data @ '' '' @ format_percent (change_24h price_data)
     @ [CHR 0x0A] @ BULLET_POINT @ '' 7d Change: ''
     @ (if price_change_7d price_data > 0 then GREEN_CIRCLE else RED_CIRCLE) @ '' ''
     @ format_percent (price_change_7d price_data) @ [CHR 0x0A] @ BULLET_POINT @ '' 30d Change: ''
     @ (if price_change_30d price_data > 0 then GREEN_CIRCLE else RED_CIRCLE) @ '' ''
     @ format_percent (price_change_30d price_data) @ [CHR 0x0A, CHR 0x0A]"

definition outlook_sentiment :: "sentiment_result \<Rightarrow> string" where
  "outlook_sentiment sentiment_data =
     replicate 60 (CHR ''-'') @ [CHR 0x0A, CHR 0x0A] @ TARGET @ '' **Sentiment Analysis**''
     @ [CHR 0x0A] @ BULLET_POINT @ '' Score: '' @ format_fixed 2 (sentiment_score sentiment_data)
     @ ''/1.0'' @ [CHR 0x0A] @ BULLET_POINT @ '' Category: ''
     @ (if sentiment_score sentiment_data > 0.7 then FIRE else []) @ '' ''
     @ title (sentiment_category sentiment_data) @ [CHR 0x0A, CHR 0x0A]"

definition outlook_analysis :: "price_data \<Rightarrow> sentiment_result \<Rightarrow> string" where
  "outlook_analysis price_data sentiment_data =
     replicate 60 (CHR ''-'') @ [CHR 0x0A, CHR 0x0A] @ MAGNIFIER @ '' **Market Analysis**''
     @ [CHR 0x0A] @ ''**Current Situation & Market Positioning**'' @ [CHR 0x0A]
     @ upper (coin_symbol price_data) @ '' is a ''
     @ (if market_cap price_data > 10000000000 then ''large''
          else if market_cap price_data > 1000000000 then ''mid'' else ''small'')
     @ ''-cap cryptocurrency with a market cap of $'' @ format_currency (market_cap price_data)
     @ ''. Despite a ''
     @ (if \<bar>change_24h price_data\<bar> < 2 then ''minor'' else ''significant'')
     @ '' 24-hour '' @ (if change_24h price_data > 0 then ''gain'' else ''decline'') @ '' of ''
     @ format_percent (change_24h price_data) @ '', it shows ''
     @ (if \<bar>price_change_30d price_data\<bar> > 20 then ''strong'' else ''moderate'')
     @ '' resilience with a '' @ format_percent (price_change_30d price_data)
     @ '' gain over 30 days. The $'' @ format_currency (volume_24h price_data)
     @ '' 24-hour trading volume indicates ''
     @ (if volume_24h price_data > market_cap price_data * 0.1 then ''high''
          else if volume_24h price_data > market_cap price_data * 0.05 then ''moderate''
          else ''low'')
     @ '' liquidity in the market.'' @ [CHR 0x0A, CHR 0x0A]
     @ ''**Technical & Fundamental Drivers**'' @ [CHR 0x0A, CHR 0x0A] @ BULLET_POINT
     @ '' **Technical**: '' @ technical_signals price_data @ ''.'' @ [CHR 0x0A, CHR 0x0A]
     @ BULLET_POINT @ '' **Fundamentals**: Strong '' @ lower (sentiment_category sentiment_data)
     @ '' sentiment at '' @ format_fixed 2 (sentiment_score sentiment_data)
     @ '' score driven by community confidence and adoption.'' @ [CHR 0x0A, CHR 0x0A]
     @ BULLET_POINT @ '' **Sources**: '' @ join '', '' (take 3 (sources sentiment_data))
     @ [CHR 0x0A, CHR 0x0A] @ ''**Short-Term Outlook**'' @ [CHR 0x0A] @ ''Expect potential ''
     @ (if sentiment_score sentiment_data > 0.5 then ''consolidation or uptrend''
          else ''consolidation or retracement'')
     @ '', depending on broader crypto market sentiment. The ''
     @ (if \<bar>change_24h price_data\<bar> < 2 then ''stable'' else ''volatile'')
     @ '' 7-day performance suggests ''
     @ (if change_24h price_data > 0 then ''resilience'' else ''caution'')
     @ '' against short-term bearish pressure.'' @ [CHR 0x0A, CHR 0x0A]
     @ ''**Investor Considerations**'' @ [CHR 0x0A, CHR 0x0A] @ BULLET_POINT
     @ '' **Monitor**: Sustainability of the ''
     @ (if price_change_30d price_data > 10 then ''30-day growth'' else ''current'') @ '' trend.''
     @ [CHR 0x0A, CHR 0x0A] @ BULLET_POINT @ '' **Evaluate**: ''
     @ (if sentiment_score sentiment_data > 0.7 then ''High bullish''
          else if sentiment_score sentiment_data > 0.5 then ''Moderate'' else ''Low'')
     @ '' sentiment against short-term volatility.'' @ [CHR 0x0A, CHR 0x0A] @ BULLET_POINT
     @ '' **Assess**: '' @ coin_name price_data @ [CHR 0x27]
     @ ''s blockchain upgrades and foundational utility.'' @ [CHR 0x0A, CHR 0x0A] @ BULLET_POINT
     @ '' **Strategy**:'' @ [CHR 0x0A]
     @ ''  - **Risk-tolerant investors**: Consider dips as potential entry points.'' @ [CHR 0x0A]
     @ ''  - **Cautious investors**: Wait for clearer trends before acting.''
     @ [CHR 0x0A, CHR 0x0A]"

definition outlook_metadata :: "datetime \<Rightarrow> string" where
  "outlook_metadata updated =
     replicate 60 (CHR ''-'') @ [CHR 0x0A, CHR 0x0A] @ BAR_CHART @ '' **Metadata**'' @ [CHR 0x0A]
     @ BULLET_POINT @ '' **Last Updated**: '' @ strftime_b updated @ [CHR 0x0A]"

text \<open>
  The response, for a \<open>price_data\<close> and a \<open>sentiment_data\<close> without the key \<open>'error'\<close>.
  \<open>now\<close> is the reading \<open>time.time()\<close> of the clock in seconds, the default of
  \<open>price_data.get('last_updated', time.time())\<close>. \<open>fromtimestamp\<close> stands for
  \<open>datetime.fromtimestamp\<close>, the local time of a time stamp, or the message of the
  exception that it raises for a time stamp out of its range, which the handler of
  \<open>get_token_outlook\<close> turns into the response (lines 770 and 771).
\<close>

definition get_token_outlook_response ::
  "(int \<Rightarrow> string + datetime) \<Rightarrow> int \<Rightarrow> price_data \<Rightarrow> sentiment_result \<Rightarrow> string" where
  "get_token_outlook_response fromtimestamp now price_data sentiment_data =
     (case fromtimestamp (case coin_last_updated price_data of Some t \<Rightarrow> t | None \<Rightarrow> now) of
        Inl message \<Rightarrow> ''Error generating token outlook: '' @ message
      | Inr updated \<Rightarrow>
          strip (outlook_overview price_data @ outlook_sentiment sentiment_data
                   @ outlook_analysis price_data sentiment_data @ outlook_metadata updated))"


section \<open>Facts about the string functions\<close>

lemma py_in_lower: "py_in sub s \<Longrightarrow> py_in (lower sub) (lower s)"
  unfolding py_in_def lower_def sublist_def by (metis map_append)

lemma any_in_iff: "any_in keywords s = (\<exists>keyword \<in> set keywords. py_in keyword s)"
  by (simp add: any_in_def list_ex_iff)


lemma lower_char_idem: "lower_char (lower_char c) = lower_char c"
  by (simp add: lower_char_def is_upper_def)

lemma lower_idem: "lower (lower s) = lower s"
  by (simp add: lower_def lower_char_idem)

lemma lower_fixed: "set m \<subseteq> set (lower q) \<Longrightarrow> lower m = m"
  unfolding lower_def by (rule map_idI) (auto simp add: lower_char_idem)


section \<open>The router\<close>

text \<open>
  C4. A text whose lower-cased form holds one of "crypto", "bitcoin", "solana", none of
  "stock", "share", "market" and none of "health", "symptom", "insurance" is routed to
  the crypto agents. The domains are tried in the order stock, crypto, health: a stock
  keyword sends the text to the analyst and news agents whatever else it holds, a crypto
  keyword without a stock keyword to the crypto agents, a health keyword without a stock
  or crypto keyword to the health agent, and a text with no keyword gets the reply that
  the query was not understood.
\<close>

theorem route_message_priority:
  "(any_in [''crypto'', ''bitcoin'', ''solana''] (lower msg)
      \<and> \<not> any_in [''stock'', ''share'', ''market''] (lower msg)
      \<and> \<not> any_in [''health'', ''symptom'', ''insurance''] (lower msg) \<longrightarrow>
      route_message sender msg = [(CRYPTO_ADDRESS, msg), (SOLANA_ADDRESS, msg)])
   \<and> (any_in [''stock'', ''share'', ''market''] (lower msg) \<longrightarrow>
      route_message sender msg = [(ANALYST_ADDRESS, msg), (NEWS_ADDRESS, msg)])
   \<and> (\<not> any_in [''stock'', ''share'', ''market''] (lower msg)
      \<and> any_in [''crypto'', ''bitcoin'', ''solana''] (lower msg) \<longrightarrow>
      route_message sender msg = [(CRYPTO_ADDRESS, msg), (SOLANA_ADDRESS, msg)])
   \<and> (\<not> any_in [''stock'', ''share'', ''market''] (lower msg)
      \<and> \<not> any_in [''crypto'', ''bitcoin'', ''solana''] (lower msg)
      \<and> any_in [''health'', ''symptom'', ''insurance''] (lower msg) \<longrightarrow>
      route_message sender msg = [(HEALTH_ADDRESS, msg)])
   \<and> (\<not> any_in [''stock'', ''share'', ''market''] (lower msg)
      \<and> \<not> any_in [''crypto'', ''bitcoin'', ''solana''] (lower msg)
      \<and> \<not> any_in [''health'', ''symptom'', ''insurance''] (lower msg) \<longrightarrow>
      route_message sender msg = [(sender, SORRY_MESSAGE)])"
  by (simp add: route_message_def any_in_def Let_def)

theorem route_message_priority_witness:
  "any_in [''crypto'', ''bitcoin'', ''solana''] (lower ''Is Solana up today?'')
   \<and> \<not> any_in [''stock'', ''share'', ''market''] (lower ''Is Solana up today?'')
   \<and> \<not> any_in [''health'', ''symptom'', ''insurance''] (lower ''Is Solana up today?'')
   \<and> route_message ''user1'' ''Is Solana up today?''
       = [(CRYPTO_ADDRESS, ''Is Solana up today?''), (SOLANA_ADDRESS, ''Is Solana up today?'')]
   \<and> any_in [''stock'', ''share'', ''market''] (lower ''Stock or crypto?'')
   \<and> route_message ''user1'' ''Stock or crypto?''
       = [(ANALYST_ADDRESS, ''Stock or crypto?''), (NEWS_ADDRESS, ''Stock or crypto?'')]
   \<and> \<not> any_in [''crypto'', ''bitcoin'', ''solana''] (lower ''I have a symptom'')
   \<and> \<not> any_in [''stock'', ''share'', ''market''] (lower ''I have a symptom'')
   \<and> any_in [''health'', ''symptom'', ''insurance''] (lower ''I have a symptom'')
   \<and> route_message ''user1'' ''I have a symptom'' = [(HEALTH_ADDRESS, ''I have a symptom'')]
   \<and> \<not> any_in [''crypto'', ''bitcoin'', ''solana''] (lower ''hello'')
   \<and> \<not> any_in [''stock'', ''share'', ''market''] (lower ''hello'')
   \<and> \<not> any_in [''health'', ''symptom'', ''insurance''] (lower ''hello'')
   \<and> route_message ''user1'' ''hello'' = [(''user1'', SORRY_MESSAGE)]"
proof -
  have a: "any_in [''crypto'', ''bitcoin'', ''solana''] (lower ''Is Solana up today?'')"
    by code_simp
  have b: "\<not> any_in [''stock'', ''share'', ''market''] (lower ''Is Solana up today?'')"
    by code_simp
  have c: "\<not> any_in [''health'', ''symptom'', ''insurance''] (lower ''Is Solana up today?'')"
    by code_simp
  have d: "any_in [''stock'', ''share'', ''market''] (lower ''Stock or crypto?'')"
    by code_simp
  have e: "\<not> any_in [''crypto'', ''bitcoin'', ''solana''] (lower ''I have a symptom'')"
    by code_simp
  have f: "\<not> any_in [''stock'', ''share'', ''market''] (lower ''I have a symptom'')"
    by code_simp
  have g: "any_in [''health'', ''symptom'', ''insurance''] (lower ''I have a symptom'')"
    by code_simp
  have h: "\<not> any_in [''crypto'', ''bitcoin'', ''solana''] (lower ''hello'')"
    by code_simp
  have i: "\<not> any_in [''stock'', ''share'', ''market''] (lower ''hello'')"
    by code_simp
  have j: "\<not> any_in [''health'', ''symptom'', ''insurance''] (lower ''hello'')"
    by code_simp
  note t1 = route_message_priority [of "''Is Solana up today?''" "''user1''"]
  note t2 = route_message_priority [of "''Stock or crypto?''" "''user1''"]
  note t3 = route_message_priority [of "''I have a symptom''" "''user1''"]
  note t4 = route_message_priority [of "''hello''" "''user1''"]
  have r1: "route_message ''user1'' ''Is Solana up today?''
       = [(CRYPTO_ADDRESS, ''Is Solana up today?''), (SOLANA_ADDRESS, ''Is Solana up today?'')]"
    by (intro mp [OF conjunct1 [OF t1]] conjI a b c)
  have r2: "route_message ''user1'' ''Stock or crypto?''
       = [(ANALYST_ADDRESS, ''Stock or crypto?''), (NEWS_ADDRESS, ''Stock or crypto?'')]"
    by (intro mp [OF conjunct1 [OF conjunct2 [OF t2]]] d)
  have r3: "route_message ''user1'' ''I have a symptom'' = [(HEALTH_ADDRESS, ''I have a symptom'')]"
    by (intro mp [OF conjunct1 [OF conjunct2 [OF conjunct2 [OF conjunct2 [OF t3]]]]] conjI e f g)
  have r4: "route_message ''user1'' ''hello'' = [(''user1'', SORRY_MESSAGE)]"
    by (intro mp [OF conjunct2 [OF conjunct2 [OF conjunct2 [OF conjunct2 [OF t4]]]]] conjI h i j)
  show ?thesis
    by (intro conjI a b c d e f g h i j r1 r2 r3 r4)
qed


section \<open>The serious-condition checks\<close>

text \<open>
  Each keyword of the command-line loop is a keyword of the insurance agent as well: a
  response for which the loop prints its prompt also makes the insurance agent send its own.
\<close>

lemma cli_serious_check_receive_analysis:
  "cli_serious_check response \<Longrightarrow> receive_analysis response = [(CLI_AGENT_ADDRESS, insurance_prompt)]"
  by (auto simp add: receive_analysis_def cli_serious_check_def serious_keywords_def any_in_iff)

text \<open>
  C8. The two places that raise the insurance prompt have their own keyword lists. The
  insurance agent sends the prompt to the command-line agent exactly when the lower-cased
  response holds one of its seven keywords, and sends nothing otherwise. The command-line
  loop prints its prompt exactly when the lower-cased response holds one of its five
  keywords "serious", "emergency", "critical", "life-threatening", "chest pain". A response
  that holds "chest pain" raises the prompt at both places.
\<close>

theorem serious_prompt_sites:
  "(receive_analysis response = [(CLI_AGENT_ADDRESS, insurance_prompt)])
     = (\<exists>keyword \<in> {''chest pain'', ''emergency'', ''critical'', ''shortness of breath'',
          ''life-threatening'', ''serious'', ''this condition may be serious''}.
          py_in keyword (lower response))
   \<and> (receive_analysis response = [])
     = (\<not> (\<exists>keyword \<in> {''chest pain'', ''emergency'', ''critical'', ''shortness of breath'',
          ''life-threatening'', ''serious'', ''this condition may be serious''}.
          py_in keyword (lower response)))
   \<and> cli_serious_check response
     = (\<exists>keyword \<in> {''serious'', ''emergency'', ''critical'', ''life-threatening'', ''chest pain''}.
          py_in keyword (lower response))
   \<and> (py_in ''chest pain'' response \<longrightarrow>
        receive_analysis response = [(CLI_AGENT_ADDRESS, insurance_prompt)]
        \<and> cli_serious_check response)"
proof -
  have l: "lower ''chest pain'' = ''chest pain''"
    by code_simp
  have "py_in ''chest pain'' response \<Longrightarrow> py_in ''chest pain'' (lower response)"
    using py_in_lower [of "''chest pain''" response] by (simp only: l)
  then show ?thesis
    by (auto simp add: receive_analysis_def cli_serious_check_def serious_keywords_def any_in_iff)
qed

theorem serious_prompt_sites_witness:
  "py_in ''chest pain'' ''[Analyzed] Chest Pain and chest pain need care''
   \<and> receive_analysis ''[Analyzed] Chest Pain and chest pain need care''
       = [(CLI_AGENT_ADDRESS, insurance_prompt)]
   \<and> cli_serious_check ''[Analyzed] Chest Pain and chest pain need care''"
proof -
  have "py_in ''chest pain'' ''[Analyzed] Chest Pain and chest pain need care''"
    by code_simp
  then show ?thesis
    using serious_prompt_sites [of "''[Analyzed] Chest Pain and chest pain need care''"]
    by blast
qed

text \<open>
  C8 as stated fails at the command-line loop: the response "Shortness of Breath reported"
  holds, lower-cased, the keyword "shortness of breath" of the seven; the insurance agent
  sends its prompt, and the command-line loop, whose list has no such keyword, prints none.
\<close>

theorem cli_serious_check_counterexample:
  "py_in ''shortness of breath'' (lower ''Shortness of Breath reported'')
   \<and> receive_analysis ''Shortness of Breath reported'' = [(CLI_AGENT_ADDRESS, insurance_prompt)]
   \<and> \<not> cli_serious_check ''Shortness of Breath reported''"
proof -
  have a: "py_in ''shortness of breath'' (lower ''Shortness of Breath reported'')"
    by code_simp
  have b: "receive_analysis ''Shortness of Breath reported'' = [(CLI_AGENT_ADDRESS, insurance_prompt)]"
    by code_simp
  have c: "\<not> cli_serious_check ''Shortness of Breath reported''"
    by code_simp
  show ?thesis
    by (intro conjI a b c)
qed


section \<open>Sentiment categories\<close>



section \<open>Token extraction\<close>

lemma match_symbol_atD:
  assumes "match_symbol_at prev s = Some k"
  shows "3 \<le> k" and "k \<le> length s" and "word_boundary prev (head_opt s)"
    and "word_boundary (Some (s ! (k - 1))) (head_opt (drop k s))"
proof -
  define ks where "ks = rev [3..<Suc (length (takeWhile is_letter (take 5 s)))]"
  have wb: "word_boundary prev (head_opt s)"
    using assms by (simp add: match_symbol_at_def split: if_splits)
  have f: "find (\<lambda>k. word_boundary (Some (s ! (k - 1))) (head_opt (drop k s))) ks = Some k"
    using assms unfolding ks_def match_symbol_at_def Let_def
    by (simp split: if_splits del: upt_Suc)
  then obtain i where i: "i < length ks" "k = ks ! i"
    and p: "word_boundary (Some (s ! (k - 1))) (head_opt (drop k s))"
    unfolding find_Some_iff by blast
  from i have "k \<in> set ks" by simp
  then have k: "3 \<le> k" "k \<le> length (takeWhile is_letter (take 5 s))"
    unfolding ks_def by (simp_all del: upt_Suc)
  have "length (takeWhile is_letter (take 5 s)) \<le> length (take 5 s)"
    by (rule length_takeWhile_le)
  with k show "3 \<le> k" "k \<le> length s" by simp_all
  from wb show "word_boundary prev (head_opt s)" .
  from p show "word_boundary (Some (s ! (k - 1))) (head_opt (drop k s))" .
qed

lemma re_search_word_here: "match_word_at token prev s \<Longrightarrow> re_search_word token prev s"
  by (cases s) simp_all

lemma re_search_word_later:
  "k \<le> length s \<Longrightarrow> re_search_word token (if k = 0 then prev else Some (s ! (k - 1))) (drop k s)
     \<Longrightarrow> re_search_word token prev s"
proof (induction s arbitrary: prev k)
  case Nil
  then show ?case by simp
next
  case (Cons c cs)
  show ?case
  proof (cases k)
    case 0
    with Cons.prems show ?thesis by simp
  next
    case (Suc j)
    with Cons.prems have "j \<le> length cs"
      and "re_search_word token (if j = 0 then Some c else Some (cs ! (j - 1))) (drop j cs)"
      by (auto simp add: nth_Cons')
    then have "re_search_word token (Some c) cs"
      by (rule Cons.IH)
    then show ?thesis by simp
  qed
qed

lemma findall_symbols_search:
  "m \<in> set (findall_symbols prev s) \<Longrightarrow> re_search_word m prev s"
proof (induction prev s rule: findall_symbols.induct)
  case (1 prev)
  then show ?case by simp
next
  case (2 prev c cs)
  show ?case
  proof (cases "match_symbol_at prev (c # cs)")
    case None
    with 2 have "re_search_word m (Some c) cs" by simp
    then show ?thesis by simp
  next
    case (Some k)
    note d = match_symbol_atD [OF Some]
    from 2(3) Some consider "m = take k (c # cs)"
      | "m \<in> set (findall_symbols (Some ((c # cs) ! (k - 1))) (drop k (c # cs)))"
      by auto
    then show ?thesis
    proof cases
      case 1
      have "m \<noteq> []" using 1 d(1) by auto
      moreover have "last m = (c # cs) ! (k - 1)"
        using 1 d(1,2) by (simp add: last_conv_nth min_def)
      moreover have "length m = k" using 1 d(2) by simp
      moreover have "prefix m (c # cs)" using 1 by (simp add: take_is_prefix)
      ultimately have "match_word_at m prev (c # cs)"
        using d(3,4) by (simp add: match_word_at_def)
      then show ?thesis by (rule re_search_word_here)
    next
      case 2
      then have "re_search_word m (Some ((c # cs) ! (k - 1))) (drop k (c # cs))"
        using "2.IH"(2) [OF Some] by simp
      then have "re_search_word m (if k = 0 then prev else Some ((c # cs) ! (k - 1)))
          (drop k (c # cs))"
        using d(1) by simp
      with d(2) show ?thesis by (rule re_search_word_later)
    qed
  qed
qed

lemma findall_symbols_chars:
  "m \<in> set (findall_symbols prev s) \<Longrightarrow> set m \<subseteq> set s"
proof (induction prev s rule: findall_symbols.induct)
  case (1 prev)
  then show ?case by simp
next
  case (2 prev c cs)
  show ?case
  proof (cases "match_symbol_at prev (c # cs)")
    case None
    with 2 have "set m \<subseteq> set cs" by simp
    then show ?thesis by auto
  next
    case (Some k)
    from 2(3) Some consider "m = take k (c # cs)"
      | "m \<in> set (findall_symbols (Some ((c # cs) ! (k - 1))) (drop k (c # cs)))"
      by auto
    then show ?thesis
    proof cases
      case 1
      then show ?thesis by (metis set_take_subset)
    next
      case 2
      then have "set m \<subseteq> set (drop k (c # cs))"
        using "2.IH"(2) [OF Some] by simp
      then show ?thesis using set_drop_subset by fastforce
    qed
  qed
qed


text \<open>
  C5. For "what's the balance of bitcoin" the router sends the text to the crypto agents,
  and \<open>extract_token_from_query\<close> returns "btc": no known symbol stands in the text as a
  word of its own, so the first strategy finds nothing, and the first entry of the table
  whose full name occurs in the text is that of "bitcoin", whose symbol is "btc".
\<close>

theorem bitcoin_balance_query:
  "route_message sender ''what's the balance of bitcoin''
     = [(CRYPTO_ADDRESS, ''what's the balance of bitcoin''),
        (SOLANA_ADDRESS, ''what's the balance of bitcoin'')]
   \<and> find (\<lambda>token. re_search_word token None (lower ''what's the balance of bitcoin''))
        (map fst TOKEN_ID_MAP) = None
   \<and> find (\<lambda>(symbol, name). py_in name (lower (lower ''what's the balance of bitcoin'')))
        TOKEN_ID_MAP = Some (''btc'', ''bitcoin'')
   \<and> extract_token_from_query ''what's the balance of bitcoin'' = Some ''btc''"
proof -
  have stock: "\<not> any_in [''stock'', ''share'', ''market''] (lower ''what's the balance of bitcoin'')"
    by code_simp
  have crypto: "py_in ''bitcoin'' (lower ''what's the balance of bitcoin'')"
    by code_simp
  have route: "route_message sender ''what's the balance of bitcoin''
     = [(CRYPTO_ADDRESS, ''what's the balance of bitcoin''),
        (SOLANA_ADDRESS, ''what's the balance of bitcoin'')]"
    using stock crypto by (simp add: route_message_def any_in_def Let_def)
  have first: "find (\<lambda>token. re_search_word token None (lower ''what's the balance of bitcoin''))
        (map fst TOKEN_ID_MAP) = None"
    by code_simp
  have second: "find (\<lambda>(symbol, name). py_in name (lower (lower ''what's the balance of bitcoin'')))
        TOKEN_ID_MAP = Some (''btc'', ''bitcoin'')"
    by code_simp
  have result: "extract_token_from_query ''what's the balance of bitcoin'' = Some ''btc''"
    by code_simp
  show ?thesis
    by (intro conjI route first second result)
qed

text \<open>
  C10. The third strategy of \<open>extract_token_from_query\<close> never decides the result: on every
  text the function returns what the first two strategies alone return. A run of three to
  five letters that \<open>findall\<close> yields stands between two word boundaries and, the query
  being lower-cased, is its own lower-cased form, so when it is a known symbol the first
  strategy has already found a symbol.
\<close>

theorem third_strategy_redundant:
  "extract_token_from_query q = extract_token_two_strategies q"
proof -
  define query where "query = lower q"
  have third: "find (\<lambda>m. map_of TOKEN_ID_MAP (lower m) \<noteq> None) (findall_symbols None query) = None"
    if first: "find (\<lambda>token. re_search_word token None query) (map fst TOKEN_ID_MAP) = None"
  proof (rule ccontr)
    assume "find (\<lambda>m. map_of TOKEN_ID_MAP (lower m) \<noteq> None) (findall_symbols None query) \<noteq> None"
    then obtain m where m: "m \<in> set (findall_symbols None query)"
      and k: "map_of TOKEN_ID_MAP (lower m) \<noteq> None"
      unfolding find_None_iff by blast
    have "set m \<subseteq> set (lower q)"
      using findall_symbols_chars [OF m] by (simp add: query_def)
    then have "lower m = m" by (rule lower_fixed)
    with k have "m \<in> set (map fst TOKEN_ID_MAP)"
      by (metis map_of_eq_None_iff set_map)
    moreover have "re_search_word m None query"
      using m by (rule findall_symbols_search)
    ultimately show False
      using first unfolding find_None_iff by blast
  qed
  show ?thesis
  proof (cases "find (\<lambda>token. re_search_word token None query) (map fst TOKEN_ID_MAP)")
    case None
    show ?thesis
      unfolding extract_token_from_query_def extract_token_two_strategies_def Let_def
        query_def [symmetric]
      by (simp only: None third [OF None] option.case)
  next
    case (Some token)
    show ?thesis
      unfolding extract_token_from_query_def extract_token_two_strategies_def Let_def
        query_def [symmetric]
      by (simp only: Some option.case)
  qed
qed



section \<open>Floating-point numbers\<close>

lemma binade_up_bounds:
  "1 \<le> x \<Longrightarrow> 0 \<le> binade_up x \<and> 2 ^ nat (binade_up x) \<le> x \<and> x < 2 * 2 ^ nat (binade_up x)"
proof (induction x rule: binade_up.induct)
  case (1 x)
  show ?case
  proof (cases "x < 2")
    case True
    with "1.prems" show ?thesis
      by (simp add: binade_up.simps [of x])
  next
    case False
    then have "1 \<le> x / 2"
      by simp
    then have ih: "0 \<le> binade_up (x / 2)" "2 ^ nat (binade_up (x / 2)) \<le> x / 2"
      "x / 2 < 2 * 2 ^ nat (binade_up (x / 2))"
      using "1.IH" [OF False] by simp_all
    have e: "binade_up x = binade_up (x / 2) + 1"
      using False by (simp add: binade_up.simps [of x])
    have n: "nat (binade_up (x / 2) + 1) = Suc (nat (binade_up (x / 2)))"
      using ih(1) by simp
    show ?thesis
      unfolding e n using ih by simp
  qed
qed

lemma binade_down_bounds:
  "0 < x \<Longrightarrow> x < 1 \<Longrightarrow>
     binade_down x < 0 \<and> 1 \<le> x * 2 ^ nat (- binade_down x) \<and> x * 2 ^ nat (- binade_down x) < 2"
proof (induction x rule: binade_down.induct)
  case (1 x)
  have g: "\<not> (x \<le> 0 \<or> 1 \<le> x)"
    using "1.prems" by simp
  have e: "binade_down x = binade_down (2 * x) - 1"
    using g by (simp add: binade_down.simps [of x])
  show ?case
  proof (cases "2 * x < 1")
    case False
    then have "binade_down (2 * x) = 0"
      by (simp add: binade_down.simps [of "2 * x"])
    then show ?thesis
      unfolding e using False "1.prems" by simp
  next
    case True
    have ih: "binade_down (2 * x) < 0" "1 \<le> 2 * x * 2 ^ nat (- binade_down (2 * x))"
      "2 * x * 2 ^ nat (- binade_down (2 * x)) < 2"
      using "1.IH" [OF g] True "1.prems" by simp_all
    have n: "nat (- (binade_down (2 * x) - 1)) = Suc (nat (- binade_down (2 * x)))"
      using ih(1) by simp
    show ?thesis
      unfolding e n using ih by (simp add: mult.assoc mult.left_commute)
  qed
qed

text \<open>The binade of a number other than 0 is the one that holds it.\<close>

lemma binade_bounds:
  assumes "x \<noteq> 0"
  shows "pow2 (binade x) \<le> \<bar>x\<bar> \<and> \<bar>x\<bar> < 2 * pow2 (binade x)"
proof (cases "1 \<le> \<bar>x\<bar>")
  case True
  then show ?thesis
    using binade_up_bounds [of "\<bar>x\<bar>"] by (simp add: binade_def pow2_def)
next
  case False
  then have "0 < \<bar>x\<bar>" "\<bar>x\<bar> < 1"
    using assms by simp_all
  note b = binade_down_bounds [OF this]
  have p: "(0::real) < 2 ^ nat (- binade_down \<bar>x\<bar>)"
    by simp
  have "1 / 2 ^ nat (- binade_down \<bar>x\<bar>) \<le> \<bar>x\<bar>"
    using b p by (simp add: divide_le_eq)
  moreover have "\<bar>x\<bar> < 2 * (1 / 2 ^ nat (- binade_down \<bar>x\<bar>))"
    using b p by (simp add: less_divide_eq)
  ultimately show ?thesis
    using False b by (simp add: binade_def pow2_def)
qed

text \<open>The rounding is to a nearest multiple of the unit in the last place.\<close>

lemma round_half_even_near: "\<bar>of_int (round_half_even x) - x\<bar> \<le> 1 / 2"
proof -
  have "of_int \<lfloor>x\<rfloor> \<le> x" and "x < of_int \<lfloor>x\<rfloor> + 1"
    by linarith+
  then show ?thesis
    by (auto simp add: round_half_even_def Let_def)
qed

lemma round_to_double_near:
  "\<bar>round_to_double x - x\<bar> \<le> pow2 (max (binade x) (- 1022) - 52) / 2"
proof (cases "x = 0")
  case True
  then show ?thesis
    by (simp add: round_to_double_def pow2_def)
next
  case False
  define ulp where "ulp = pow2 (max (binade x) (- 1022) - 52)"
  have u: "0 < ulp"
    by (simp add: ulp_def pow2_def)
  have "of_int (round_half_even (x / ulp)) * ulp - x
      = (of_int (round_half_even (x / ulp)) - x / ulp) * ulp"
    using u by (simp add: left_diff_distrib)
  then have "\<bar>of_int (round_half_even (x / ulp)) * ulp - x\<bar>
      = \<bar>of_int (round_half_even (x / ulp)) - x / ulp\<bar> * ulp"
    using u by (simp only: abs_mult abs_of_pos)
  also have "\<dots> \<le> 1 / 2 * ulp"
    using round_half_even_near [of "x / ulp"] u by (intro mult_right_mono) simp_all
  finally show ?thesis
    using False by (simp add: round_to_double_def ulp_def [symmetric] Let_def)
qed

text \<open>The equations that evaluate a rounding.\<close>

lemmas float_eval = round_to_double_def binade_def binade_up.simps binade_down.simps pow2_def
  round_half_even_def Let_def


section \<open>Sentiment analysis of the collected texts\<close>

lemma collect_samples_texts:
  "fst (collect_samples items acc) = fst acc @ map fst items"
  by (induction items acc rule: collect_samples.induct) simp_all

lemma collect_samples_set:
  "set (snd (collect_samples items acc)) = set (snd acc) \<union> snd ` set items"
  by (induction items acc rule: collect_samples.induct) auto

lemma collect_samples_distinct:
  "distinct (snd acc) \<Longrightarrow> distinct (snd (collect_samples items acc))"
  by (induction items acc rule: collect_samples.induct) auto

lemma score_of_simps:
  "score_of polarity NotStr = None"
  "score_of polarity (Str text) =
     (if text \<noteq> [] \<and> length (strip text) > 0 then polarity text else None)"
  by (simp_all add: score_of_def)

lemma score_texts_map_filter:
  "score_texts polarity texts = List.map_filter (score_of polarity) texts"
  by (induction polarity texts rule: score_texts.induct)
    (simp_all add: List.map_filter_simps score_of_simps split: option.splits)

lemma score_texts_mset:
  assumes "mset texts' = mset texts"
  shows "mset (score_texts polarity texts') = mset (score_texts polarity texts)"
proof -
  have "mset (List.map_filter f xs) = image_mset (the \<circ> f) (filter_mset (\<lambda>x. f x \<noteq> None) (mset xs))"
    for f :: "py_text \<Rightarrow> real option" and xs
    by (simp add: List.map_filter_def)
  then show ?thesis
    by (simp add: score_texts_map_filter assms)
qed

lemma previews_all_text:
  "\<forall>t \<in> set texts. t \<noteq> NotStr \<Longrightarrow> previews texts \<noteq> None"
  by (induction texts rule: previews.induct) auto

lemma analyze_samples_eq:
  "analyze_samples polarity samples =
     analyze_texts polarity (map fst samples) (snd (collect_samples samples ([], [])))"
proof -
  have "fst (collect_samples samples ([], [])) = map fst samples"
    by (simp add: collect_samples_texts)
  then show ?thesis
    by (cases "collect_samples samples ([], [])") (simp add: analyze_samples_def)
qed

text \<open>
  C2, as the code has it. When no sample of the sequence gets a score, the result has score
  0, category "neutral" and sample size 0, and it is no error; its source list is
  ["No data"] when the sequence is empty and the empty list when the sequence is not empty.
\<close>

theorem no_score_result:
  assumes "score_texts polarity (map fst samples) = []"
  shows "sentiment_score (analyze_samples polarity samples) = 0
    \<and> sentiment_category (analyze_samples polarity samples) = ''neutral''
    \<and> sample_size (analyze_samples polarity samples) = 0
    \<and> sources (analyze_samples polarity samples) = (if samples = [] then [''No data''] else [])
    \<and> \<not> has_error (analyze_samples polarity samples)"
  using assms by (simp add: analyze_samples_eq analyze_texts_def Let_def)

theorem no_score_result_witness:
  "score_texts (\<lambda>text. Some 1) (map fst []) = []
   \<and> sources (analyze_samples (\<lambda>text. Some 1) []) = [''No data'']
   \<and> score_texts (\<lambda>text. Some 1) (map fst [(Str ''  '', ''CoinGecko Status''), (NotStr, ''News'')]) = []
   \<and> sentiment_score (analyze_samples (\<lambda>text. Some 1) [(Str ''  '', ''CoinGecko Status''), (NotStr, ''News'')]) = 0
   \<and> sample_size (analyze_samples (\<lambda>text. Some 1) [(Str ''  '', ''CoinGecko Status''), (NotStr, ''News'')]) = 0
   \<and> sources (analyze_samples (\<lambda>text. Some 1) [(Str ''  '', ''CoinGecko Status''), (NotStr, ''News'')]) = []"
proof -
  have a: "score_texts (\<lambda>text. Some 1) (map fst []) = []"
    by simp
  have b: "score_texts (\<lambda>text. Some 1)
      (map fst [(Str ''  '', ''CoinGecko Status''), (NotStr, ''News'')]) = []"
    by code_simp
  show ?thesis
    using a b no_score_result [OF a] no_score_result [OF b] by simp
qed

text \<open>
  C2 as stated fails: for the one sample with the empty text no sample gets a score, and
  the source list of the result is empty, not ["No data"].
\<close>

theorem no_score_sources_counterexample:
  "score_texts (\<lambda>text. Some 1) (map fst [(Str '''', ''CoinGecko Status'')]) = []
   \<and> sources (analyze_samples (\<lambda>text. Some 1) [(Str '''', ''CoinGecko Status'')]) \<noteq> [''No data'']"
  by (simp add: analyze_samples_def analyze_texts_def)

lemma collect_samples_sources:
  "set (snd (collect_samples samples ([], []))) = snd ` set samples"
  "length (snd (collect_samples samples ([], []))) = card (snd ` set samples)"
proof -
  show s: "set (snd (collect_samples samples ([], []))) = snd ` set samples"
    by (simp add: collect_samples_set)
  have "distinct (snd (collect_samples samples ([], [])))"
    by (rule collect_samples_distinct) simp
  then show "length (snd (collect_samples samples ([], []))) = card (snd ` set samples)"
    using s by (metis distinct_card)
qed

lemma analyze_samples_text:
  assumes "\<forall>sample \<in> set samples. fst sample \<noteq> NotStr"
    and "score_texts polarity (map fst samples) \<noteq> []"
  shows "sentiment_score (analyze_samples polarity samples)
      = float_div (float_sum (score_texts polarity (map fst samples)))
          (real (length (score_texts polarity (map fst samples))))"
    and "sample_size (analyze_samples polarity samples)
      = length (score_texts polarity (map fst samples))"
    and "sources (analyze_samples polarity samples)
      = take 5 (snd (collect_samples samples ([], [])))"
    and "\<not> has_error (analyze_samples polarity samples)"
proof -
  have "\<forall>t \<in> set (take 3 (map fst samples)). t \<noteq> NotStr"
  proof
    fix t
    assume "t \<in> set (take 3 (map fst samples))"
    then have "t \<in> set (map fst samples)"
      by (rule in_set_takeD)
    then show "t \<noteq> NotStr"
      using assms(1) by auto
  qed
  then have "previews (take 3 (map fst samples)) \<noteq> None"
    by (rule previews_all_text)
  then obtain ps where ps: "previews (take 3 (map fst samples)) = Some ps"
    by auto
  have ne: "map fst samples \<noteq> []"
    using assms(2) by auto
  show "sentiment_score (analyze_samples polarity samples)
      = float_div (float_sum (score_texts polarity (map fst samples)))
          (real (length (score_texts polarity (map fst samples))))"
    and "sample_size (analyze_samples polarity samples)
      = length (score_texts polarity (map fst samples))"
    and "sources (analyze_samples polarity samples)
      = take 5 (snd (collect_samples samples ([], [])))"
    and "\<not> has_error (analyze_samples polarity samples)"
    using assms(2) ne ps by (simp_all add: analyze_samples_eq analyze_texts_def Let_def)
qed

lemma strip_up: "strip ''up'' = ''up''"
  by code_simp

text \<open>
  C3, as the code has it. For a sequence of samples whose texts are all strings, every
  reordering gives the same sample size; the same set of sources when the sequence names at
  most five different sources; and the same score when the floating-point sum of the scores
  of the samples that got one is the same in both orders, as it is when these scores come
  in the same order. When some sample gets a score, the score is the mean of these scores
  as the floating-point arithmetic computes it, by a sum from the left and one division;
  the sample size is their number; and the sources are the first five source names in the
  order of their first appearance, which are all of them when there are at most five.
\<close>

theorem reordering_invariance:
  assumes perm: "mset samples' = mset samples"
    and texts: "\<forall>sample \<in> set samples. fst sample \<noteq> NotStr"
  shows "sample_size (analyze_samples polarity samples')
           = sample_size (analyze_samples polarity samples)
    \<and> (card (snd ` set samples) \<le> 5 \<longrightarrow>
         set (sources (analyze_samples polarity samples'))
           = set (sources (analyze_samples polarity samples)))
    \<and> (float_sum (score_texts polarity (map fst samples'))
           = float_sum (score_texts polarity (map fst samples)) \<longrightarrow>
         sentiment_score (analyze_samples polarity samples')
           = sentiment_score (analyze_samples polarity samples))
    \<and> (score_texts polarity (map fst samples) \<noteq> [] \<longrightarrow>
         sentiment_score (analyze_samples polarity samples)
           = float_div (float_sum (score_texts polarity (map fst samples)))
               (real (length (score_texts polarity (map fst samples))))
         \<and> sample_size (analyze_samples polarity samples)
           = length (score_texts polarity (map fst samples))
         \<and> sources (analyze_samples polarity samples)
           = take 5 (snd (collect_samples samples ([], [])))
         \<and> (card (snd ` set samples) \<le> 5 \<longrightarrow>
              set (sources (analyze_samples polarity samples)) = snd ` set samples))"
proof -
  have sets: "set samples' = set samples"
    using perm by (rule mset_eq_setD)
  have texts': "\<forall>sample \<in> set samples'. fst sample \<noteq> NotStr"
    using texts sets by simp
  have "mset (map fst samples') = mset (map fst samples)"
    using perm by (metis mset_map)
  then have scores: "mset (score_texts polarity (map fst samples'))
      = mset (score_texts polarity (map fst samples))"
    by (rule score_texts_mset)
  have empty: "(samples' = []) = (samples = [])"
    using sets by (metis set_empty)
  have all: "set (take 5 (snd (collect_samples xs ([], [])))) = snd ` set xs"
    if "card (snd ` set xs) \<le> 5" for xs :: "(py_text \<times> string) list"
    using that by (simp add: collect_samples_sources)
  show ?thesis
  proof (cases "score_texts polarity (map fst samples) = []")
    case True
    then have "score_texts polarity (map fst samples') = []"
      using scores by (metis mset_zero_iff)
    with True show ?thesis
      by (simp add: analyze_samples_eq analyze_texts_def Let_def empty)
  next
    case False
    then have False': "score_texts polarity (map fst samples') \<noteq> []"
      using scores by (metis mset_zero_iff)
    note r = analyze_samples_text [OF texts False]
    note r' = analyze_samples_text [OF texts' False']
    have size: "sample_size (analyze_samples polarity samples')
           = sample_size (analyze_samples polarity samples)"
      unfolding r(2) r'(2) using scores by (rule mset_eq_length)
    have labels: "set (sources (analyze_samples polarity samples')) = snd ` set samples
        \<and> set (sources (analyze_samples polarity samples)) = snd ` set samples"
      if "card (snd ` set samples) \<le> 5"
      unfolding r(3) r'(3) using that all [of samples] all [of samples'] sets by simp
    have score: "sentiment_score (analyze_samples polarity samples')
           = sentiment_score (analyze_samples polarity samples)"
      if "float_sum (score_texts polarity (map fst samples'))
        = float_sum (score_texts polarity (map fst samples))"
      unfolding r(1) r'(1) using that mset_eq_length [OF scores] by simp
    show ?thesis
      using size labels score r(1,2,3) by simp
  qed
qed

theorem reordering_invariance_witness:
  "mset [(Str ''down'', ''b''), (Str ''up'', ''a''), (Str '''', ''a'')]
     = mset [(Str ''up'', ''a''), (Str '''', ''a''), (Str ''down'', ''b'')]
   \<and> list_all (\<lambda>sample. fst sample \<noteq> NotStr) [(Str ''up'', ''a''), (Str '''', ''a''), (Str ''down'', ''b'')]
   \<and> card (snd ` set [(Str ''up'', ''a''), (Str '''', ''a''), (Str ''down'', ''b'')]) \<le> 5
   \<and> score_texts (\<lambda>text. Some (real (length text)))
        (map fst [(Str ''up'', ''a''), (Str '''', ''a''), (Str ''down'', ''b'')]) = [2, 4]
   \<and> score_texts (\<lambda>text. Some (real (length text)))
        (map fst [(Str ''down'', ''b''), (Str ''up'', ''a''), (Str '''', ''a'')]) = [4, 2]
   \<and> float_sum [4, 2] = float_sum [2, 4]
   \<and> sentiment_score (analyze_samples (\<lambda>text. Some (real (length text)))
        [(Str ''down'', ''b''), (Str ''up'', ''a''), (Str '''', ''a'')]) = 3
   \<and> sample_size (analyze_samples (\<lambda>text. Some (real (length text)))
        [(Str ''down'', ''b''), (Str ''up'', ''a''), (Str '''', ''a'')]) = 2
   \<and> set (sources (analyze_samples (\<lambda>text. Some (real (length text)))
        [(Str ''down'', ''b''), (Str ''up'', ''a''), (Str '''', ''a'')])) = {''a'', ''b''}"
proof -
  let ?xs = "[(Str ''up'', ''a''), (Str '''', ''a''), (Str ''down'', ''b'')]"
  let ?ys = "[(Str ''down'', ''b''), (Str ''up'', ''a''), (Str '''', ''a'')]"
  let ?p = "\<lambda>text. Some (real (length text))"
  have perm: "mset ?ys = mset ?xs"
    by simp
  have texts: "\<forall>sample \<in> set ?xs. fst sample \<noteq> NotStr"
    by simp
  have cap: "card (snd ` set ?xs) \<le> 5"
    by (simp add: card_insert_if)
  have st: "strip ''up'' = ''up''" "strip ''down'' = ''down''"
    by code_simp+
  have sc: "score_texts ?p (map fst ?xs) = [2, 4]"
    using st by simp
  have sc': "score_texts ?p (map fst ?ys) = [4, 2]"
    using st by simp
  have sum: "float_sum [2, 4] = 6"
    by (simp add: float_sum_def float_eval)
  have sum': "float_sum [4, 2] = 6"
    by (simp add: float_sum_def float_eval)
  have sums: "float_sum [4, 2] = float_sum [2, 4]"
    by (simp only: sum sum')
  have same: "float_sum (score_texts ?p (map fst ?ys)) = float_sum (score_texts ?p (map fst ?xs))"
    by (simp only: sc sc' sums)
  have n: "score_texts ?p (map fst ?xs) \<noteq> []"
    by (simp only: sc) simp
  have mean: "float_div (float_sum [2, 4]) (real (length [2::real, 4])) = 3"
    by (simp add: sum float_div_def float_eval)
  note t = reordering_invariance [OF perm texts, of ?p]
  note u = t [THEN conjunct2, THEN conjunct2, THEN conjunct2, THEN mp, OF n]
  have "sentiment_score (analyze_samples ?p ?xs)
      = float_div (float_sum [2, 4]) (real (length [2::real, 4]))"
    using u [THEN conjunct1] by (simp only: sc)
  then have "sentiment_score (analyze_samples ?p ?xs) = 3"
    by (simp only: mean)
  then have s: "sentiment_score (analyze_samples ?p ?ys) = 3"
    using t [THEN conjunct2, THEN conjunct2, THEN conjunct1, THEN mp, OF same] by simp
  have "sample_size (analyze_samples ?p ?xs) = length [2::real, 4]"
    using u [THEN conjunct2, THEN conjunct1] by (simp only: sc)
  then have "sample_size (analyze_samples ?p ?xs) = 2"
    by simp
  then have z: "sample_size (analyze_samples ?p ?ys) = 2"
    using t [THEN conjunct1] by simp
  have "set (sources (analyze_samples ?p ?xs)) = {''a'', ''b''}"
    using u [THEN conjunct2, THEN conjunct2, THEN conjunct2, THEN mp, OF cap] by simp
  then have l: "set (sources (analyze_samples ?p ?ys)) = {''a'', ''b''}"
    using t [THEN conjunct2, THEN conjunct1, THEN mp, OF cap] by simp
  have la: "list_all (\<lambda>sample. fst sample \<noteq> NotStr) ?xs"
    by simp
  show ?thesis
    by (intro conjI perm la cap sc sc' sums s z l)
qed

text \<open>
  C3 as stated fails in three ways. In the set of sources: the list is cut to the first
  five names in the order of first appearance, so six samples from six sources and the same
  samples in reverse order give different sets. In the score: the floats 0.1, 0.2 and 0.3
  added from the left give 0.6000000000000001 and the mean 0.20000000000000004, and added
  in reverse order 0.6 and the mean 0.19999999999999998. In the sample size: an element
  that is no string among the first three texts makes the preview raise, which leaves the
  sample size 0, and does not when it comes fourth.
\<close>

theorem reordering_counterexample:
  "mset (rev [(Str ''up'', ''a''), (Str ''up'', ''b''), (Str ''up'', ''c''),
              (Str ''up'', ''d''), (Str ''up'', ''e''), (Str ''up'', ''f'')])
     = mset [(Str ''up'', ''a''), (Str ''up'', ''b''), (Str ''up'', ''c''),
             (Str ''up'', ''d''), (Str ''up'', ''e''), (Str ''up'', ''f'')]
   \<and> sources (analyze_samples (\<lambda>text. Some 1)
        [(Str ''up'', ''a''), (Str ''up'', ''b''), (Str ''up'', ''c''),
         (Str ''up'', ''d''), (Str ''up'', ''e''), (Str ''up'', ''f'')])
       = [''a'', ''b'', ''c'', ''d'', ''e'']
   \<and> sources (analyze_samples (\<lambda>text. Some 1)
        (rev [(Str ''up'', ''a''), (Str ''up'', ''b''), (Str ''up'', ''c''),
              (Str ''up'', ''d''), (Str ''up'', ''e''), (Str ''up'', ''f'')]))
       = [''f'', ''e'', ''d'', ''c'', ''b'']
   \<and> set (sources (analyze_samples (\<lambda>text. Some 1)
        (rev [(Str ''up'', ''a''), (Str ''up'', ''b''), (Str ''up'', ''c''),
              (Str ''up'', ''d''), (Str ''up'', ''e''), (Str ''up'', ''f'')])))
     \<noteq> set (sources (analyze_samples (\<lambda>text. Some 1)
        [(Str ''up'', ''a''), (Str ''up'', ''b''), (Str ''up'', ''c''),
         (Str ''up'', ''d''), (Str ''up'', ''e''), (Str ''up'', ''f'')]))
   \<and> mset (rev [(Str ''fair'', ''a''), (Str ''good'', ''a''), (Str ''fine'', ''a'')])
     = mset [(Str ''fair'', ''a''), (Str ''good'', ''a''), (Str ''fine'', ''a'')]
   \<and> sentiment_score (analyze_samples
        (map_of [(''fair'', round_to_double 0.1), (''good'', round_to_double 0.2),
                 (''fine'', round_to_double 0.3)])
        [(Str ''fair'', ''a''), (Str ''good'', ''a''), (Str ''fine'', ''a'')])
       = 7205759403792795 / 36028797018963968
   \<and> sentiment_score (analyze_samples
        (map_of [(''fair'', round_to_double 0.1), (''good'', round_to_double 0.2),
                 (''fine'', round_to_double 0.3)])
        (rev [(Str ''fair'', ''a''), (Str ''good'', ''a''), (Str ''fine'', ''a'')]))
       = 7205759403792793 / 36028797018963968
   \<and> sentiment_score (analyze_samples
        (map_of [(''fair'', round_to_double 0.1), (''good'', round_to_double 0.2),
                 (''fine'', round_to_double 0.3)])
        (rev [(Str ''fair'', ''a''), (Str ''good'', ''a''), (Str ''fine'', ''a'')]))
     \<noteq> sentiment_score (analyze_samples
        (map_of [(''fair'', round_to_double 0.1), (''good'', round_to_double 0.2),
                 (''fine'', round_to_double 0.3)])
        [(Str ''fair'', ''a''), (Str ''good'', ''a''), (Str ''fine'', ''a'')])
   \<and> mset (rev [(Str ''up'', ''a''), (Str ''up'', ''a''), (Str ''up'', ''a''), (NotStr, ''a'')])
     = mset [(Str ''up'', ''a''), (Str ''up'', ''a''), (Str ''up'', ''a''), (NotStr, ''a'')]
   \<and> sample_size (analyze_samples (\<lambda>text. Some 1)
        [(Str ''up'', ''a''), (Str ''up'', ''a''), (Str ''up'', ''a''), (NotStr, ''a'')]) = 3
   \<and> sample_size (analyze_samples (\<lambda>text. Some 1)
        (rev [(Str ''up'', ''a''), (Str ''up'', ''a''), (Str ''up'', ''a''), (NotStr, ''a'')])) = 0"
proof -
  let ?six = "[(Str ''up'', ''a''), (Str ''up'', ''b''), (Str ''up'', ''c''),
               (Str ''up'', ''d''), (Str ''up'', ''e''), (Str ''up'', ''f'')]"
  let ?three = "[(Str ''fair'', ''a''), (Str ''good'', ''a''), (Str ''fine'', ''a'')]"
  let ?four = "[(Str ''up'', ''a''), (Str ''up'', ''a''), (Str ''up'', ''a''), (NotStr, ''a'')]"
  let ?p = "map_of [(''fair'', round_to_double 0.1), (''good'', round_to_double 0.2),
                    (''fine'', round_to_double 0.3)]"
  have a: "sources (analyze_samples (\<lambda>text. Some 1) ?six) = [''a'', ''b'', ''c'', ''d'', ''e'']"
    by (simp add: analyze_samples_def analyze_texts_def strip_up Let_def)
  have b: "sources (analyze_samples (\<lambda>text. Some 1) (rev ?six)) = [''f'', ''e'', ''d'', ''c'', ''b'']"
    by (simp add: analyze_samples_def analyze_texts_def strip_up Let_def)
  have "''a'' \<notin> set [''f'', ''e'', ''d'', ''c'', ''b'']"
    by simp
  moreover have "''a'' \<in> set [''a'', ''b'', ''c'', ''d'', ''e'']"
    by simp
  ultimately have c: "set [''f'', ''e'', ''d'', ''c'', ''b'']
      \<noteq> set [''a'', ''b'', ''c'', ''d'', ''e'']"
    by metis
  have p: "mset (rev ?six) = mset ?six"
    by (rule mset_rev)
  have d: "set (sources (analyze_samples (\<lambda>text. Some 1) (rev ?six)))
     \<noteq> set (sources (analyze_samples (\<lambda>text. Some 1) ?six))"
    unfolding a b by (rule c)
  have st: "strip ''fair'' = ''fair''" "strip ''good'' = ''good''" "strip ''fine'' = ''fine''"
    by code_simp+
  have r1: "round_to_double 0.1 = 3602879701896397 / 36028797018963968"
    by (simp add: float_eval)
  have r2: "round_to_double 0.2 = 3602879701896397 / 18014398509481984"
    by (simp add: float_eval)
  have r3: "round_to_double 0.3 = 5404319552844595 / 18014398509481984"
    by (simp add: float_eval)
  have sc: "score_texts ?p (map fst ?three)
      = [3602879701896397 / 36028797018963968, 3602879701896397 / 18014398509481984,
         5404319552844595 / 18014398509481984]"
    unfolding r1 r2 r3 by (simp add: st)
  have sc': "score_texts ?p (map fst (rev ?three))
      = [5404319552844595 / 18014398509481984, 3602879701896397 / 18014398509481984,
         3602879701896397 / 36028797018963968]"
    unfolding r1 r2 r3 by (simp add: st)
  have s1: "round_to_double (3602879701896397 / 36028797018963968 + 3602879701896397 / 18014398509481984)
      = 1351079888211149 / 4503599627370496"
    by (simp add: float_eval)
  have s2: "round_to_double (1351079888211149 / 4503599627370496 + 5404319552844595 / 18014398509481984)
      = 1351079888211149 / 2251799813685248"
    by (simp add: float_eval)
  have s3: "round_to_double (1351079888211149 / 2251799813685248 / 3)
      = 7205759403792795 / 36028797018963968"
    by (simp add: float_eval)
  have t1: "round_to_double (5404319552844595 / 18014398509481984 + 3602879701896397 / 18014398509481984)
      = 1 / 2"
    by (simp add: float_eval)
  have t2: "round_to_double (1 / 2 + 3602879701896397 / 36028797018963968)
      = 5404319552844595 / 9007199254740992"
    by (simp add: float_eval)
  have t3: "round_to_double (5404319552844595 / 9007199254740992 / 3)
      = 7205759403792793 / 36028797018963968"
    by (simp add: float_eval)
  have i1: "round_to_double (3602879701896397 / 36028797018963968)
      = 3602879701896397 / 36028797018963968"
    by (simp add: float_eval)
  have i3: "round_to_double (5404319552844595 / 18014398509481984)
      = 5404319552844595 / 18014398509481984"
    by (simp add: float_eval)
  have m: "float_div (float_sum [3602879701896397 / 36028797018963968,
        3602879701896397 / 18014398509481984, 5404319552844595 / 18014398509481984]) 3
      = 7205759403792795 / 36028797018963968"
    by (simp only: float_div_def float_sum_def foldl.simps add_0 i1 s1 s2 s3)
  have m': "float_div (float_sum [5404319552844595 / 18014398509481984,
        3602879701896397 / 18014398509481984, 3602879701896397 / 36028797018963968]) 3
      = 7205759403792793 / 36028797018963968"
    by (simp only: float_div_def float_sum_def foldl.simps add_0 i3 t1 t2 t3)
  have e: "sentiment_score (analyze_samples ?p ?three) = 7205759403792795 / 36028797018963968"
    using sc m by (simp add: analyze_samples_eq analyze_texts_def Let_def)
  have f: "sentiment_score (analyze_samples ?p (rev ?three)) = 7205759403792793 / 36028797018963968"
    using sc' m' by (simp add: analyze_samples_eq analyze_texts_def Let_def)
  have g: "sentiment_score (analyze_samples ?p (rev ?three))
      \<noteq> sentiment_score (analyze_samples ?p ?three)"
    unfolding e f by simp
  have q: "mset (rev ?three) = mset ?three"
    by (rule mset_rev)
  have h: "mset (rev ?four) = mset ?four"
    by (rule mset_rev)
  have i: "sample_size (analyze_samples (\<lambda>text. Some 1) ?four) = 3"
    by (simp add: analyze_samples_def analyze_texts_def strip_up Let_def)
  have j: "sample_size (analyze_samples (\<lambda>text. Some 1) (rev ?four)) = 0"
    by (simp add: analyze_samples_def analyze_texts_def strip_up Let_def)
  show ?thesis
    by (intro conjI p a b d q e f g h i j)
qed


section \<open>The chat handlers\<close>




section \<open>Number formatting\<close>

lemma digits_nonempty: "digits n \<noteq> []"
  by (subst digits.simps) simp

lemma is_digit_char_of: "k < 10 \<Longrightarrow> is_digit (digit_char k)"
proof -
  assume "k < 10"
  then have "k \<in> {0, 1, 2, 3, 4, 5, 6, 7, 8, 9}"
    by auto
  then show ?thesis
    by (auto simp add: digit_char_def is_digit_def)
qed

lemma digits_are_digits: "c \<in> set (digits n) \<Longrightarrow> is_digit c"
proof (induction n arbitrary: c rule: digits.induct)
  case (1 n)
  show ?case
  proof (cases "n < 10")
    case True
    with 1(2) show ?thesis
      by (subst (asm) digits.simps) (simp add: is_digit_char_of)
  next
    case False
    with 1(2) have "c \<in> set (digits (n div 10)) \<or> c = digit_char (n mod 10)"
      by (subst (asm) digits.simps) auto
    then show ?thesis
      using 1(1) [OF False] is_digit_char_of [of "n mod 10"] by auto
  qed
qed







section \<open>The response of the insurance agent\<close>

lemma digit_not_space: "is_digit c \<Longrightarrow> \<not> is_space c"
  by (auto simp add: is_digit_def is_space_def)

lemma strip_around:
  assumes "p \<noteq> []" and "\<not> is_space (hd p)" and "ts \<noteq> []" and "\<not> is_space (last ts)"
  shows "strip (p @ ts @ b) = p @ ts @ rev (dropWhile is_space (rev b))"
proof -
  obtain c cs where p: "p = c # cs"
    using assms(1) by (cases p) auto
  have front: "dropWhile is_space (p @ ts @ b) = p @ ts @ b"
    using assms(2) by (simp add: p)
  have "rev ts \<noteq> []" and "\<not> is_space (hd (rev ts))"
    using assms(3,4) by (simp_all add: hd_rev)
  then have mid: "dropWhile is_space (rev ts @ rev p) = rev ts @ rev p"
    by (cases "rev ts") auto
  have "dropWhile is_space (rev b @ rev ts @ rev p)
      = dropWhile is_space (rev b) @ rev ts @ rev p"
  proof (cases "\<forall>x \<in> set (rev b). is_space x")
    case True
    then have "dropWhile is_space (rev b) = []"
      by simp
    with True mid show ?thesis
      by (simp add: dropWhile_append)
  next
    case False
    then show ?thesis
      by (auto simp add: dropWhile_append)
  qed
  then show ?thesis
    by (simp add: strip_def front)
qed

lemma two_digits_last: "two_digits n \<noteq> [] \<and> is_digit (last (two_digits n))"
  using digits_nonempty [of n] digits_are_digits [of "last (digits n)" n]
  by (simp add: two_digits_def)

lemma strftime_last: "strftime now \<noteq> [] \<and> \<not> is_space (last (strftime now))"
  using two_digits_last [of "second now"] digit_not_space
  by (simp add: strftime_def)

lemma response_header_hd: "response_header info \<noteq> [] \<and> \<not> is_space (hd (response_header info))"
  by (simp add: response_header_def is_space_def split: option.splits)

lemma format_insurance_response_parts:
  "format_insurance_response py_float now info market sentiment analysis_text =
     (case market_section py_float market of
        Inl e \<Rightarrow> Inl e
      | Inr market_lines \<Rightarrow>
          Inr (response_before info market_lines sentiment analysis_text @ strftime now
                 @ response_after info))"
proof (cases "market_section py_float market")
  case (Inl e)
  then show ?thesis
    by (simp add: format_insurance_response_def)
next
  case (Inr market_lines)
  let ?p = "response_before info market_lines sentiment analysis_text"
  have "?p \<noteq> []" and "\<not> is_space (hd ?p)"
    using response_header_hd [of info] by (simp_all add: response_before_def)
  then have "strip (?p @ strftime now @ ([CHR 0x0A] @ learn_more info))
      = ?p @ strftime now @ response_after info"
    unfolding response_after_def using strftime_last [of now] by (intro strip_around) simp_all
  then show ?thesis
    by (simp add: format_insurance_response_def Inr response_before_def)
qed

lemma format_insurance_response_equal:
  "(format_insurance_response py_float now1 info market sentiment analysis_text
      = format_insurance_response py_float now2 info market sentiment analysis_text)
   = (strftime now1 = strftime now2
      \<or> (\<exists>e. format_insurance_response py_float now1 info market sentiment analysis_text = Inl e))"
  by (cases "market_section py_float market") (simp_all add: format_insurance_response_parts)


section \<open>The response of the crypto agent\<close>

lemma change_emoji_update:
  "change_emoji (price_data\<lparr>coin_last_updated := u\<rparr>) = change_emoji price_data"
  by (simp add: change_emoji_def)

lemma technical_signals_update:
  "technical_signals (price_data\<lparr>coin_last_updated := u\<rparr>) = technical_signals price_data"
  by (simp add: technical_signals_def)

lemma outlook_overview_update:
  "outlook_overview (price_data\<lparr>coin_last_updated := u\<rparr>) = outlook_overview price_data"
  by (simp add: outlook_overview_def change_emoji_update)

lemma outlook_analysis_update:
  "outlook_analysis (price_data\<lparr>coin_last_updated := u\<rparr>) sentiment_data
     = outlook_analysis price_data sentiment_data"
  by (simp add: outlook_analysis_def technical_signals_update)


section \<open>The responses and the clock\<close>

text \<open>
  C7, as the code has it. \<open>format_insurance_response\<close> reads the clock for its time stamp
  line. With the query, the market data, the sentiment data and the analysis fixed, the
  response is either the same error at every reading of the clock, or one fixed text before
  and one fixed text after the time stamp of the reading. Two invocations on the same
  inputs therefore give the same result exactly when their time stamps, which go down to
  the second, are the same (or when the result is the error). The response of
  \<open>get_token_outlook\<close> does not depend on the clock: its time stamp is that of the key
  \<open>'last_updated'\<close> of the price data, so that two invocations on the same price data and
  sentiment data give the same string whatever the clock shows; only for price data without
  that key is the response the one for the reading of the clock as the time stamp.
\<close>

theorem response_clock_dependence:
  "((\<exists>e. \<forall>now. format_insurance_response py_float now info market sentiment analysis_text = Inl e)
    \<or> (\<exists>before after. \<forall>now.
          format_insurance_response py_float now info market sentiment analysis_text
            = Inr (before @ strftime now @ after)))
   \<and> (format_insurance_response py_float now1 info market sentiment analysis_text
        = format_insurance_response py_float now2 info market sentiment analysis_text)
     = (strftime now1 = strftime now2
        \<or> (\<exists>e. format_insurance_response py_float now1 info market sentiment analysis_text
              = Inl e))
   \<and> (coin_last_updated price_data = Some t \<longrightarrow>
        get_token_outlook_response fromtimestamp clock1 price_data sentiment_data
          = get_token_outlook_response fromtimestamp clock2 price_data sentiment_data)
   \<and> (coin_last_updated price_data = None \<longrightarrow>
        get_token_outlook_response fromtimestamp clock1 price_data sentiment_data
          = get_token_outlook_response fromtimestamp clock2
              (price_data\<lparr>coin_last_updated := Some clock1\<rparr>) sentiment_data)"
proof -
  have "(\<exists>e. \<forall>now. format_insurance_response py_float now info market sentiment analysis_text = Inl e)
    \<or> (\<exists>before after. \<forall>now.
          format_insurance_response py_float now info market sentiment analysis_text
            = Inr (before @ strftime now @ after))"
  proof (cases "market_section py_float market")
    case (Inl e)
    then show ?thesis
      by (simp add: format_insurance_response_parts)
  next
    case (Inr market_lines)
    then have "\<forall>now. format_insurance_response py_float now info market sentiment analysis_text
        = Inr (response_before info market_lines sentiment analysis_text @ strftime now
                 @ response_after info)"
      by (simp add: format_insurance_response_parts)
    then show ?thesis
      by blast
  qed
  moreover have "coin_last_updated price_data = Some t \<longrightarrow>
      get_token_outlook_response fromtimestamp clock1 price_data sentiment_data
        = get_token_outlook_response fromtimestamp clock2 price_data sentiment_data"
    by (simp add: get_token_outlook_response_def)
  moreover have "coin_last_updated price_data = None \<longrightarrow>
      get_token_outlook_response fromtimestamp clock1 price_data sentiment_data
        = get_token_outlook_response fromtimestamp clock2
            (price_data\<lparr>coin_last_updated := Some clock1\<rparr>) sentiment_data"
    by (simp add: get_token_outlook_response_def outlook_overview_update
        outlook_analysis_update split: sum.splits)
  ultimately show ?thesis
    using format_insurance_response_equal [of py_float now1 info market sentiment analysis_text now2]
    by (intro conjI)
qed

theorem response_clock_dependence_witness:
  "coin_last_updated
      \<lparr>coin_symbol = ''btc'', coin_name = ''Bitcoin'', price_usd = 64250.5,
       market_cap = 1265000000000, volume_24h = 31200000000, change_24h = - 1.25,
       price_change_7d = 3.4, price_change_30d = 12.8,
       coin_last_updated = Some 1741338300\<rparr> = Some 1741338300
   \<and> get_token_outlook_response (\<lambda>t. Inr \<lparr>year = 2025, month = 3, day = 7, hour = 9,
          minute = 5, second = 0, microsecond = 0\<rparr>) 1741338301
        \<lparr>coin_symbol = ''btc'', coin_name = ''Bitcoin'', price_usd = 64250.5,
         market_cap = 1265000000000, volume_24h = 31200000000, change_24h = - 1.25,
         price_change_7d = 3.4, price_change_30d = 12.8,
         coin_last_updated = Some 1741338300\<rparr>
        \<lparr>sentiment_score = 0.2, sentiment_category = ''very positive'', sample_size = 3,
         sources = [''CoinDesk''], analysis = Some ''Up...'', has_error = False\<rparr>
     = get_token_outlook_response (\<lambda>t. Inr \<lparr>year = 2025, month = 3, day = 7, hour = 9,
          minute = 5, second = 0, microsecond = 0\<rparr>) 1741338999
        \<lparr>coin_symbol = ''btc'', coin_name = ''Bitcoin'', price_usd = 64250.5,
         market_cap = 1265000000000, volume_24h = 31200000000, change_24h = - 1.25,
         price_change_7d = 3.4, price_change_30d = 12.8,
         coin_last_updated = Some 1741338300\<rparr>
        \<lparr>sentiment_score = 0.2, sentiment_category = ''very positive'', sample_size = 3,
         sources = [''CoinDesk''], analysis = Some ''Up...'', has_error = False\<rparr>
   \<and> coin_last_updated
      \<lparr>coin_symbol = ''btc'', coin_name = ''Bitcoin'', price_usd = 64250.5,
       market_cap = 1265000000000, volume_24h = 31200000000, change_24h = - 1.25,
       price_change_7d = 3.4, price_change_30d = 12.8, coin_last_updated = None\<rparr> = None
   \<and> get_token_outlook_response (\<lambda>t. Inr \<lparr>year = 2025, month = 3, day = 7, hour = 9,
          minute = 5, second = 0, microsecond = 0\<rparr>) 1741338301
        \<lparr>coin_symbol = ''btc'', coin_name = ''Bitcoin'', price_usd = 64250.5,
         market_cap = 1265000000000, volume_24h = 31200000000, change_24h = - 1.25,
         price_change_7d = 3.4, price_change_30d = 12.8, coin_last_updated = None\<rparr>
        \<lparr>sentiment_score = 0.2, sentiment_category = ''very positive'', sample_size = 3,
         sources = [''CoinDesk''], analysis = Some ''Up...'', has_error = False\<rparr>
     = get_token_outlook_response (\<lambda>t. Inr \<lparr>year = 2025, month = 3, day = 7, hour = 9,
          minute = 5, second = 0, microsecond = 0\<rparr>) 1741338999
        \<lparr>coin_symbol = ''btc'', coin_name = ''Bitcoin'', price_usd = 64250.5,
         market_cap = 1265000000000, volume_24h = 31200000000, change_24h = - 1.25,
         price_change_7d = 3.4, price_change_30d = 12.8,
         coin_last_updated = Some 1741338301\<rparr>
        \<lparr>sentiment_score = 0.2, sentiment_category = ''very positive'', sample_size = 3,
         sources = [''CoinDesk''], analysis = Some ''Up...'', has_error = False\<rparr>"
proof -
  let ?p = "\<lparr>coin_symbol = ''btc'', coin_name = ''Bitcoin'', price_usd = 64250.5,
       market_cap = 1265000000000, volume_24h = 31200000000, change_24h = - 1.25,
       price_change_7d = 3.4, price_change_30d = 12.8,
       coin_last_updated = Some 1741338300\<rparr>"
  let ?q = "\<lparr>coin_symbol = ''btc'', coin_name = ''Bitcoin'', price_usd = 64250.5,
       market_cap = 1265000000000, volume_24h = 31200000000, change_24h = - 1.25,
       price_change_7d = 3.4, price_change_30d = 12.8, coin_last_updated = None\<rparr>"
  have a: "coin_last_updated ?p = Some 1741338300"
    by simp
  have b: "coin_last_updated ?q = None"
    by simp
  have u: "?q\<lparr>coin_last_updated := Some 1741338301\<rparr>
      = \<lparr>coin_symbol = ''btc'', coin_name = ''Bitcoin'', price_usd = 64250.5,
         market_cap = 1265000000000, volume_24h = 31200000000, change_24h = - 1.25,
         price_change_7d = 3.4, price_change_30d = 12.8,
         coin_last_updated = Some 1741338301\<rparr>"
    by simp
  note t = response_clock_dependence [THEN conjunct2, THEN conjunct2, THEN conjunct1, THEN mp, OF a]
  note t' = response_clock_dependence [THEN conjunct2, THEN conjunct2, THEN conjunct2, THEN mp,
      OF b, of _ 1741338301 _ 1741338999, unfolded u]
  show ?thesis
    by (intro conjI a t b t')
qed

text \<open>
  C7 as stated fails for \<open>format_insurance_response\<close>: on the same inputs, invocations
  at 09:05:00 and at 09:05:01 give different strings.
\<close>

theorem response_clock_counterexample:
  "format_insurance_response (\<lambda>s. None)
      \<lparr>year = 2025, month = 3, day = 7, hour = 9, minute = 5, second = 0, microsecond = 0\<rparr>
      \<lparr>company = None, insurance_type = Some ''health'', company_data = None,
       specific_terms = []\<rparr>
      None None ''Steady.''
   \<noteq> format_insurance_response (\<lambda>s. None)
      \<lparr>year = 2025, month = 3, day = 7, hour = 9, minute = 5, second = 1, microsecond = 0\<rparr>
      \<lparr>company = None, insurance_type = Some ''health'', company_data = None,
       specific_terms = []\<rparr>
      None None ''Steady.''"
proof -
  have "strftime \<lparr>year = 2025, month = 3, day = 7, hour = 9, minute = 5, second = 0, microsecond = 0\<rparr>
      = ''March 07, 2025 at 09:05:00''"
    by (simp add: strftime_def month_names_def two_digits_def digits.simps digit_char_def)
  moreover have "strftime \<lparr>year = 2025, month = 3, day = 7, hour = 9, minute = 5, second = 1, microsecond = 0\<rparr>
      = ''March 07, 2025 at 09:05:01''"
    by (simp add: strftime_def month_names_def two_digits_def digits.simps digit_char_def)
  ultimately show ?thesis
    by (simp add: format_insurance_response_equal format_insurance_response_parts
        market_section_def)
qed

end
